theory Spec2Isabelle
  imports Main "HOL-Library.AList"
begin

section \<open>Python values shared by the models\<close>

text \<open>
  Objects are identified by natural numbers (their identity). A Python \<open>dict\<close> is an
  association list in insertion order: \<open>AList.update\<close> replaces the value of a present key in
  place and appends an absent one, \<open>AList.delete\<close> removes a key, \<open>map_of\<close> reads.
  A Python \<open>set\<close> of callbacks is a duplicate-free list in insertion order (the iteration
  order of a set is unspecified; the statements below do not depend on it beyond the order
  in which one batch of callbacks is logged).
\<close>

datatype py_error =
  KeyError | IndexError | TypeError | AttributeError | AssertionError | RecursionError |
  StopIteration | OSError | PyException string

type_synonym callback = nat

datatype condition = Inexorable | Condition nat "string list" "nat option"

definition dict_truthy :: "('k \<times> 'v) list option \<Rightarrow> bool" where
  "dict_truthy d = (case d of None \<Rightarrow> False | Some xs \<Rightarrow> xs \<noteq> [])"

definition set_add :: "'a \<Rightarrow> 'a list \<Rightarrow> 'a list" where
  "set_add x xs = (if x \<in> set xs then xs else xs @ [x])"

section \<open>flows.py: Channel obstructions and monitors\<close>

text \<open>
  \<open>f_obstructions\<close> is \<open>None\<close> or a dict from the obstructing key to (signal, condition);
  \<open>f_monitors\<close> is \<open>None\<close> or a set of (obstructed, cleared) callback pairs. A call of a
  monitor callback with the channel as its argument is logged as the callback's identity.
\<close>

record channel =
  f_obstructions :: "(nat \<times> (nat option \<times> condition option)) list option"
  f_monitors :: "(callback \<times> callback) list option"

definition f_obstructed :: "'a channel_scheme \<Rightarrow> bool" where
  "f_obstructed c = (f_obstructions c \<noteq> None)"

definition monitors_of :: "'a channel_scheme \<Rightarrow> (callback \<times> callback) list" where
  "monitors_of c = (case f_monitors c of None \<Rightarrow> [] | Some ms \<Rightarrow> ms)"

text \<open>\<open>Channel.f_obstruct(by, signal, condition)\<close>: the new channel and the callbacks invoked.\<close>

definition f_obstruct ::
  "'a channel_scheme \<Rightarrow> nat \<Rightarrow> nat option \<Rightarrow> condition option \<Rightarrow>
     'a channel_scheme \<times> callback list" where
  "f_obstruct c by signal cond =
     (let first = (\<not> dict_truthy (f_obstructions c));
          obs = (case f_obstructions c of None \<Rightarrow> [] | Some d \<Rightarrow> d);
          c' = c\<lparr>f_obstructions := Some (AList.update by (signal, cond) obs)\<rparr>
      in (c', if first \<and> dict_truthy (f_monitors c) then map fst (monitors_of c) else []))"

text \<open>\<open>Channel.f_clear(obstruction)\<close>: the new channel, the returned flag and the callbacks invoked.\<close>

definition f_clear :: "'a channel_scheme \<Rightarrow> nat \<Rightarrow> 'a channel_scheme \<times> bool \<times> callback list" where
  "f_clear c obstruction =
     (case f_obstructions c of
        None \<Rightarrow> (c, False, [])
      | Some f_obs \<Rightarrow>
          if f_obs = [] then (c, False, [])
          else if obstruction \<in> fst ` set f_obs then
            (let f_obs' = AList.delete obstruction f_obs in
             if f_obs' = [] then
               (c\<lparr>f_obstructions := None\<rparr>, True,
                if dict_truthy (f_monitors c) then map snd (monitors_of c) else [])
             else (c\<lparr>f_obstructions := Some f_obs'\<rparr>, False, []))
          else (c, False, []))"

text \<open>\<open>Channel.f_watch(obstructed, cleared)\<close>.\<close>

definition f_watch ::
  "'a channel_scheme \<Rightarrow> callback \<Rightarrow> callback \<Rightarrow> 'a channel_scheme \<times> callback list" where
  "f_watch c obstructed cleared =
     (let c' = c\<lparr>f_monitors := Some (set_add (obstructed, cleared) (monitors_of c))\<rparr>
      in (c', if f_obstructed c' then [obstructed] else []))"

text \<open>\<open>Channel.f_ignore(obstructed, cleared)\<close>.\<close>

definition f_ignore :: "'a channel_scheme \<Rightarrow> callback \<Rightarrow> callback \<Rightarrow> 'a channel_scheme" where
  "f_ignore c obstructed cleared =
     (if dict_truthy (f_monitors c)
      then c\<lparr>f_monitors := Some (removeAll (obstructed, cleared) (monitors_of c))\<rparr>
      else c)"

text \<open>A sequence of \<open>f_obstruct\<close> and \<open>f_clear\<close> calls on one channel, with the callback log.\<close>

datatype chan_op = Obstruct nat "nat option" "condition option" | Clear nat

fun chan_step :: "channel \<Rightarrow> chan_op \<Rightarrow> channel \<times> callback list" where
  "chan_step c (Obstruct by signal cond) = f_obstruct c by signal cond"
| "chan_step c (Clear k) = (case f_clear c k of (c', cleared, calls) \<Rightarrow> (c', calls))"

fun chan_run :: "channel \<Rightarrow> chan_op list \<Rightarrow> channel \<times> callback list" where
  "chan_run c [] = (c, [])"
| "chan_run c (x # xs) =
     (case chan_step c x of (c', calls) \<Rightarrow>
        (case chan_run c' xs of (c'', calls') \<Rightarrow> (c'', calls @ calls')))"

text \<open>
  The monitor calls the specification expects of such a sequence: at every step that takes
  the channel from unobstructed to obstructed every registered \<open>onObstruct\<close> once, at every
  step that takes it from obstructed to unobstructed every registered \<open>onClear\<close> once, and
  nothing at any other step.
\<close>

fun expected_calls :: "channel \<Rightarrow> chan_op list \<Rightarrow> callback list" where
  "expected_calls c [] = []"
| "expected_calls c (x # xs) =
     (let c' = fst (chan_step c x) in
      (if \<not> f_obstructed c \<and> f_obstructed c' then map fst (monitors_of c)
       else if f_obstructed c \<and> \<not> f_obstructed c' then map snd (monitors_of c)
       else []) @ expected_calls c' xs)"

text \<open>
  The state the channel operations maintain: the obstruction dict is never present and
  empty (\<open>f_clear\<close> resets it to \<open>None\<close> when the last key goes).
\<close>

definition chan_inv :: "'a channel_scheme \<Rightarrow> bool" where
  "chan_inv c = (f_obstructions c \<noteq> Some [])"

text \<open>The keys obstructing a channel, and the entry stored under one key.\<close>

definition obstruction_keys :: "'a channel_scheme \<Rightarrow> nat set" where
  "obstruction_keys c = (case f_obstructions c of None \<Rightarrow> {} | Some d \<Rightarrow> fst ` set d)"

definition obstruction_of :: "'a channel_scheme \<Rightarrow> nat \<Rightarrow> (nat option \<times> condition option) option" where
  "obstruction_of c k = (case f_obstructions c of None \<Rightarrow> None | Some d \<Rightarrow> map_of d k)"

section \<open>flows.py: KOutput\<close>

text \<open>
  The transit is the kernel-side object of the I/O library: \<open>acquire\<close> hands it the buffer
  to transfer (its \<open>resource\<close>), \<open>terminate\<close> closes its direction. \<open>Kernel.__init__\<close> binds
  \<open>self.acquire = transit.acquire\<close>, so \<open>acquire\<close> reaches the transit object also after
  \<open>k_kill\<close> has set \<open>self.transit = None\<close> (\<open>transit_linked\<close> False), while
  \<open>self.transit.terminate()\<close> then raises AttributeError.
\<close>

type_synonym buffer = "nat list"

record koutput = channel +
  ko_self :: nat
  ko_limit :: nat
  ko_queue :: "buffer list"
  k_transferred :: "nat option"
  transit_linked :: bool
  transit_resource :: "buffer option"
  transit_terminated :: bool
  terminating :: bool

definition ko_overflow :: "koutput \<Rightarrow> bool" where
  "ko_overflow k = (length (ko_queue k) > ko_limit k)"

text \<open>\<open>KOutput.k_transition\<close>.\<close>

definition ko_transition :: "koutput \<Rightarrow> py_error + (koutput \<times> callback list)" where
  "ko_transition k =
     (case ko_queue k of
        nb # rest \<Rightarrow>
          Inr (k\<lparr>ko_queue := rest, transit_resource := Some nb, k_transferred := Some 0\<rparr>, [])
      | [] \<Rightarrow>
          (case f_clear (k\<lparr>k_transferred := None\<rparr>) (ko_self k) of
             (k', cleared, calls) \<Rightarrow>
               if terminating k' then
                 (if transit_linked k' then Inr (k'\<lparr>transit_terminated := True\<rparr>, calls)
                  else Inl AttributeError)
               else Inr (k', calls)))"

text \<open>\<open>KOutput.process(event)\<close>: \<open>event\<close> is the sequence of buffers to enqueue.\<close>

definition ko_process :: "koutput \<Rightarrow> buffer list \<Rightarrow> py_error + (koutput \<times> callback list)" where
  "ko_process k event =
     (let k1 = k\<lparr>ko_queue := ko_queue k @ event\<rparr> in
      if k_transferred k1 = None then ko_transition k1
      else if length (ko_queue k1) > ko_limit k1 then
        Inr (f_obstruct k1 (ko_self k1) None (Some (Condition (ko_self k1) [''ko_overflow''] None)))
      else Inr (k1, []))"

text \<open>A freshly constructed KOutput (\<open>ko_limit = 16\<close>, empty queue, nothing transferring).\<close>

definition ko_init :: "nat \<Rightarrow> koutput" where
  "ko_init self =
     \<lparr>f_obstructions = None, f_monitors = None, ko_self = self, ko_limit = 16, ko_queue = [],
      k_transferred = None, transit_linked = True, transit_resource = None,
      transit_terminated = False, terminating = False\<rparr>"


section \<open>library.py: Ports\<close>

text \<open>
  An endpoint is the tuple (kind, address, port). \<open>Ports.sets\<close> is a
  \<open>defaultdict(dict)\<close>: slot name to dict of endpoint to kernel descriptor; reading a
  missing slot inserts an empty dict. Python is dynamically typed, so the attribute can
  come to hold any unpickled object: \<open>pyval\<close> has the two kinds of object that occur.

  The surroundings of the device are explicit: the descriptors open in the process
  (\<open>os.close\<close> of a descriptor that is not open raises OSError), the file system entries
  at the routes of \<open>local\<close> endpoints, and the files written by \<open>pickle.dump\<close>, each
  holding the object dumped (\<open>pickle.load\<close> gives back an equal object).
\<close>

datatype endpoint = Endpoint (protocol: string) (address: string) (port: nat)

datatype pyval = PStr string | PSets "(string \<times> (endpoint \<times> nat) list) list"

datatype fs_type = SocketFile | OtherFile

record ports =
  sets :: pyval
  users :: "(string \<times> nat) list"
  open_fds :: "nat list"
  next_fd :: nat
  fs :: "(endpoint \<times> fs_type) list"
  files :: "(string \<times> pyval) list"

text \<open>
  An operation either raises, leaving the state it had reached, or returns a value with
  the final state.
\<close>

datatype 'a outcome = Raised py_error ports | Returned 'a ports

fun state_of :: "'a outcome \<Rightarrow> ports" where
  "state_of (Raised e p) = p"
| "state_of (Returned x p) = p"

text \<open>\<open>self.sets[slot]\<close> on the defaultdict (TypeError when \<open>sets\<close> is a string).\<close>

definition sets_getitem :: "ports \<Rightarrow> string \<Rightarrow> ((endpoint \<times> nat) list) outcome" where
  "sets_getitem p slot =
     (case sets p of
        PStr s \<Rightarrow> Raised TypeError p
      | PSets d \<Rightarrow>
          (case map_of d slot of
             Some sd \<Rightarrow> Returned sd p
           | None \<Rightarrow> Returned [] (p\<lparr>sets := PSets (d @ [(slot, [])])\<rparr>)))"

text \<open>Writing the slot's dict back (the dict object is mutated in place in the source).\<close>

definition sets_put :: "ports \<Rightarrow> string \<Rightarrow> (endpoint \<times> nat) list \<Rightarrow> ports" where
  "sets_put p slot sd =
     (case sets p of
        PStr s \<Rightarrow> p
      | PSets d \<Rightarrow> p\<lparr>sets := PSets (AList.update slot sd d)\<rparr>)"

text \<open>\<open>os.close(fd)\<close>.\<close>

definition os_close :: "ports \<Rightarrow> nat \<Rightarrow> unit outcome" where
  "os_close p fd =
     (if fd \<in> set (open_fds p) then Returned () (p\<lparr>open_fds := removeAll fd (open_fds p)\<rparr>)
      else Raised OSError p)"

text \<open>
  Modelled from the spec: \<open>Context.bindings(*endpoints)\<close> is not in the sources; the
  context "binds kernel descriptors", here one fresh descriptor per endpoint, in order.
\<close>

fun bindings :: "ports \<Rightarrow> endpoint list \<Rightarrow> nat list \<times> ports" where
  "bindings p [] = ([], p)"
| "bindings p (e # es) =
     (let fd = next_fd p;
          p' = p\<lparr>open_fds := open_fds p @ [fd], next_fd := Suc fd\<rparr>
      in case bindings p' es of (fds, p'') \<Rightarrow> (fd # fds, p''))"

text \<open>The first loop of \<open>Ports.bind\<close>: remove existing file system sockets.\<close>

fun bind_void :: "ports \<Rightarrow> endpoint list \<Rightarrow> unit outcome" where
  "bind_void p [] = Returned () p"
| "bind_void p (x # xs) =
     (if protocol x = ''local'' then
        (case map_of (fs p) x of
           None \<Rightarrow> bind_void p xs
         | Some SocketFile \<Rightarrow> bind_void (p\<lparr>fs := AList.delete x (fs p)\<rparr>) xs
         | Some OtherFile \<Rightarrow>
             Raised (PyException ''cannot overwrite file that is not a socket file'') p)
      else bind_void p xs)"

text \<open>The second loop of \<open>Ports.bind\<close>: \<open>add(ep, fd)\<close> for the zipped pairs.\<close>

fun bind_add :: "(endpoint \<times> nat) list \<Rightarrow> (endpoint \<times> nat) list \<Rightarrow> (endpoint \<times> nat) list" where
  "bind_add sd [] = sd"
| "bind_add sd ((ep, fd) # rest) = bind_add (AList.update ep fd sd) rest"

text \<open>\<open>Ports.bind(slot, *endpoints)\<close>.\<close>

definition ports_bind :: "ports \<Rightarrow> string \<Rightarrow> endpoint list \<Rightarrow> unit outcome" where
  "ports_bind p slot endpoints =
     (case sets_getitem p slot of
        Raised e p1 \<Rightarrow> Raised e p1
      | Returned sd p1 \<Rightarrow>
          (case bind_void p1 endpoints of
             Raised e p2 \<Rightarrow> Raised e p2
           | Returned u p2 \<Rightarrow>
               (case bindings p2 endpoints of
                  (fds, p3) \<Rightarrow> Returned () (sets_put p3 slot (bind_add sd (zip endpoints fds))))))"

text \<open>
  The arguments \<open>Ports.close\<close> receives after the slot: an endpoint, or (as \<open>replace\<close>
  passes it) a set object. \<open>sd.pop(x, None)\<close> returns the default without hashing the key
  when the dict is empty (CPython); otherwise an unhashable key (a set) raises TypeError.
\<close>

datatype close_arg = AnEndpoint endpoint | ASet "endpoint list"

fun close_loop :: "ports \<Rightarrow> string \<Rightarrow> (endpoint \<times> nat) list \<Rightarrow> close_arg list \<Rightarrow> unit outcome" where
  "close_loop p slot sd [] = Returned () (sets_put p slot sd)"
| "close_loop p slot sd (x # xs) =
     (if sd = [] then close_loop p slot sd xs
      else (case x of
              ASet es \<Rightarrow> Raised TypeError (sets_put p slot sd)
            | AnEndpoint e \<Rightarrow>
                (case map_of sd e of
                   None \<Rightarrow> close_loop p slot sd xs
                 | Some fd \<Rightarrow>
                     (case os_close p fd of
                        Raised err p' \<Rightarrow> Raised err (sets_put p' slot (AList.delete e sd))
                      | Returned u p' \<Rightarrow> close_loop p' slot (AList.delete e sd) xs))))"

text \<open>\<open>Ports.close(slot, *endpoints)\<close>.\<close>

definition ports_close :: "ports \<Rightarrow> string \<Rightarrow> close_arg list \<Rightarrow> unit outcome" where
  "ports_close p slot endpoints =
     (case sets_getitem p slot of
        Raised e p1 \<Rightarrow> Raised e p1
      | Returned sd p1 \<Rightarrow> close_loop p1 slot sd endpoints)"

text \<open>\<open>Ports.acquire(slot)\<close>.\<close>

definition ports_acquire :: "ports \<Rightarrow> string \<Rightarrow> ((endpoint \<times> nat) list) outcome" where
  "ports_acquire p slot = sets_getitem p slot"

text \<open>
  \<open>Ports.replace(slot, *endpoints)\<close>. Python sets are duplicate-free lists here
  (\<open>set(xs)\<close> is \<open>remdups xs\<close>). The last call is \<open>self.close(slot, removed)\<close>: the set
  \<open>removed\<close> is passed as the one endpoint argument.
\<close>

definition ports_replace :: "ports \<Rightarrow> string \<Rightarrow> endpoint list \<Rightarrow> (endpoint list) outcome" where
  "ports_replace p slot endpoints =
     (case sets_getitem p slot of
        Raised e p1 \<Rightarrow> Raised e p1
      | Returned sd p1 \<Rightarrow>
          (let current_endpoints = map fst sd;
               new_endpoints = remdups endpoints;
               delta = filter (\<lambda>e. e \<notin> set current_endpoints) new_endpoints
           in case ports_bind p1 slot delta of
                Raised e p2 \<Rightarrow> Raised e p2
              | Returned u p2 \<Rightarrow>
                  (let current' = current_endpoints @ delta;
                       removed = filter (\<lambda>e. e \<notin> set new_endpoints) current'
                   in case ports_close p2 slot [ASet removed] of
                        Raised e p3 \<Rightarrow> Raised e p3
                      | Returned u p3 \<Rightarrow> Returned removed p3)))"



text \<open>A Ports device holding one slot with one bound endpoint on descriptor 5.\<close>

definition ports_example :: ports where
  "ports_example =
     \<lparr>sets = PSets [(''http'', [(Endpoint ''ip4'' ''127.0.0.1'' 80, 5)])], users = [],
      open_fds = [5], next_fd = 6, fs = [], files = []\<rparr>"

section \<open>daemon.py: ProcessManager\<close>

text \<open>\<open>str(i)\<close> of a Python int: decimal digits, with a minus sign when negative.\<close>

definition digit_char :: "nat \<Rightarrow> char" where
  "digit_char d = ''0123456789'' ! d"

function str_nat :: "nat \<Rightarrow> string" where
  "str_nat n = (if n < 10 then [digit_char n] else str_nat (n div 10) @ [digit_char (n mod 10)])"
  by pat_completeness auto
termination
  by (relation "measure id") auto

declare str_nat.simps [simp del]

definition py_str :: "int \<Rightarrow> string" where
  "py_str i = (if i < 0 then CHR ''-'' # str_nat (nat (- i)) else str_nat (nat i))"

text \<open>
  \<open>dispatch.Subprocess\<close>: \<open>sp_processes\<close> maps a process identifier to its invocation
  (for the manager's forks, the fork id), \<open>sp_exit_status\<close> a process identifier to its
  reaped status.
\<close>

record subprocess =
  sp_processes :: "(nat \<times> int) list"
  sp_exit_status :: "(nat \<times> int) list"

text \<open>\<open>Subprocess.sp_only\<close>.\<close>

definition sp_only :: "subprocess \<Rightarrow> int option" where
  "sp_only sub =
     (if length (sp_processes sub) > 1 then None
      else (case sp_exit_status sub of [] \<Rightarrow> None | (pid, i) # rest \<Rightarrow> Some i))"

text \<open>
  A forked child is recorded with its process identifier and its environment. The manager
  carries, besides its own attributes, the parent's \<open>os.environ\<close>, the next process
  identifier the system hands out, the children forked so far and the transactions
  dispatched for them.
\<close>

record child =
  child_pid :: nat
  child_environ :: "(string \<times> string) list"

record process_manager =
  pm_terminating :: bool
  ctl_concurrency :: int
  ctl_fork_id_to_subprocess :: "(int \<times> subprocess) list"
  ctl_last_exit_status :: "(int \<times> (nat \<times> int option)) list"
  environ :: "(string \<times> string) list"
  next_pid :: nat
  forked :: "child list"
  dispatched :: "subprocess list"

text \<open>
  \<open>ProcessManager.ctl_forked(fork_id)\<close>, run by the child on its copy of the
  environment: \<open>os.environ["SECTORS"] = str(fork_id)\<close>; the worker application it then
  enters is outside the model.
\<close>

definition ctl_forked :: "(string \<times> string) list \<Rightarrow> int \<Rightarrow> (string \<times> string) list" where
  "ctl_forked env fork_id = AList.update ''SECTORS'' (py_str fork_id) env"

text \<open>
  \<open>ProcessManager.ctl_fork(fid)\<close>. \<open>process.Fork.dispatch(self.ctl_forked, fid)\<close> belongs to
  the system library: it forks, the child calls \<open>ctl_forked(fid)\<close>, and the parent gets the
  child's process identifier. The parent then records the Subprocess and dispatches its
  transaction.
\<close>

definition ctl_fork :: "process_manager \<Rightarrow> int \<Rightarrow> process_manager" where
  "ctl_fork m fid =
     (let pid = next_pid m;
          c = \<lparr>child_pid = pid, child_environ = ctl_forked (environ m) fid\<rparr>;
          sub = \<lparr>sp_processes = [(pid, fid)], sp_exit_status = []\<rparr>
      in m\<lparr>next_pid := Suc pid,
            forked := forked m @ [c],
            ctl_fork_id_to_subprocess := AList.update fid sub (ctl_fork_id_to_subprocess m),
            dispatched := dispatched m @ [sub]\<rparr>)"

text \<open>\<open>ProcessManager.actuate\<close>: \<open>for i in range(1, self.ctl_concurrency+1)\<close>, the ints 1 to N.\<close>

fun pm_actuate_loop :: "process_manager \<Rightarrow> int list \<Rightarrow> process_manager" where
  "pm_actuate_loop m [] = m"
| "pm_actuate_loop m (i # rest) = pm_actuate_loop (ctl_fork m i) rest"

definition pm_actuate :: "process_manager \<Rightarrow> process_manager" where
  "pm_actuate m = pm_actuate_loop m [1 .. ctl_concurrency m]"

text \<open>
  \<open>ProcessManager.xact_exit(xact)\<close>, with \<open>sub = xact.xact_context\<close> the exited fork's
  Subprocess. \<open>next(iter(...))\<close> raises StopIteration on an empty process set and the
  \<open>del\<close> raises KeyError when the fork id is no longer in the (weak) dictionary.
\<close>

definition xact_exit :: "process_manager \<Rightarrow> subprocess \<Rightarrow> py_error + process_manager" where
  "xact_exit m sub =
     (if pm_terminating m then Inr m
      else (case sp_processes sub of
              [] \<Rightarrow> Inl StopIteration
            | (pid, fid) # rest \<Rightarrow>
                (case map_of (ctl_fork_id_to_subprocess m) fid of
                   None \<Rightarrow> Inl KeyError
                 | Some s \<Rightarrow>
                     (let m1 = m\<lparr>ctl_fork_id_to_subprocess :=
                                    AList.delete fid (ctl_fork_id_to_subprocess m),
                                  ctl_last_exit_status :=
                                    AList.update fid (pid, sp_only sub) (ctl_last_exit_status m)\<rparr>
                      in if fid < ctl_concurrency m1 + 1 then Inr (ctl_fork m1 fid)
                         else Inr m1))))"

text \<open>A manager with concurrency 3 after \<open>actuate\<close>: children 1, 2, 3 on pids 100, 101, 102.\<close>

definition pm_example :: process_manager where
  "pm_example =
     pm_actuate \<lparr>pm_terminating = False, ctl_concurrency = 3, ctl_fork_id_to_subprocess = [],
       ctl_last_exit_status = [], environ = [(''PATH'', ''/bin'')], next_pid = 100,
       forked = [], dispatched = []\<rparr>"

section \<open>library.py: Unit address space\<close>

text \<open>
  \<open>u_index\<close> maps an address (a tuple of strings) to the placed object or \<open>None\<close>;
  \<open>u_reverse_index\<close> maps an object to its address. \<open>u_hierarchy\<close> is a tree of nested
  dicts in which dict objects can be shared (\<open>__init__\<close> stores \<open>u_faults\<close> under both
  \<open>faults\<close> and \<open>dev/faults\<close>), so the dicts live in a store: \<open>dicts\<close> gives the entries
  (name to dict identity) of every dict object, \<open>u_hierarchy\<close> is the identity of the root dict,
  and \<open>next_dict\<close> is the identity the next \<open>dict()\<close> receives.
\<close>

record unit_state =
  u_index :: "(string list \<times> nat option) list"
  u_reverse_index :: "(nat option \<times> string list) list"
  u_hierarchy :: nat
  dicts :: "nat \<Rightarrow> (string \<times> nat) list"
  next_dict :: nat

text \<open>The index and hierarchy \<open>Unit.__init__\<close> builds.\<close>

definition unit_init :: unit_state where
  "unit_init =
     \<lparr>u_index = [([''dev''], None), ([''dev'', ''faults''], None), ([''faults''], None),
                 ([''bin''], None), ([''etc''], None), ([''lib''], None), ([''libexec''], None)],
      u_reverse_index = [],
      u_hierarchy = 0,
      dicts = (\<lambda>i. []) (0 := [(''bin'', 2), (''lib'', 3), (''libexec'', 4), (''etc'', 5),
                                  (''dev'', 6), (''faults'', 1)],
                           6 := [(''faults'', 1)]),
      next_dict = 7\<rparr>"

text \<open>
  The loop of \<open>Unit.place\<close> over the destination: descend into \<open>p[x]\<close> when \<open>x\<close> is in
  \<open>p\<close>, otherwise store a new empty dict under \<open>x\<close> and stay at \<open>p\<close>.
\<close>

fun place_walk ::
  "(nat \<Rightarrow> (string \<times> nat) list) \<Rightarrow> nat \<Rightarrow> nat \<Rightarrow> string list \<Rightarrow>
   (nat \<Rightarrow> (string \<times> nat) list) \<times> nat" where
  "place_walk h n p [] = (h, n)"
| "place_walk h n p (x # xs) =
     (case map_of (h p) x of
        Some q \<Rightarrow> place_walk h n q xs
      | None \<Rightarrow> place_walk (h(p := h p @ [(x, n)], n := [])) (Suc n) p xs)"

text \<open>
  \<open>Unit.place(obj, *destination)\<close>. An empty destination raises IndexError at
  \<open>destination[0]\<close>; the handler deletes the index entry and re-raises.
\<close>

definition place :: "unit_state \<Rightarrow> nat option \<Rightarrow> string list \<Rightarrow> py_error + unit_state" where
  "place u obj destination =
     (let u1 = u\<lparr>u_index := AList.update destination obj (u_index u)\<rparr> in
      case place_walk (dicts u1) (next_dict u1) (u_hierarchy u1) destination of
        (h, n) \<Rightarrow>
          (case destination of
             [] \<Rightarrow> Inl IndexError
           | d0 # ds \<Rightarrow>
               (let u2 = u1\<lparr>dicts := h, next_dict := n\<rparr> in
                if d0 \<noteq> ''faults''
                then Inr (u2\<lparr>u_reverse_index :=
                                AList.update obj destination (u_reverse_index u2)\<rparr>)
                else Inr u2)))"

text \<open>\<open>Unit.delete(*address)\<close>.\<close>

definition delete :: "unit_state \<Rightarrow> string list \<Rightarrow> py_error + unit_state" where
  "delete u addr =
     (case map_of (u_index u) addr of
        None \<Rightarrow> Inl KeyError
      | Some obj \<Rightarrow>
          (case map_of (u_reverse_index u) obj of
             None \<Rightarrow> Inl KeyError
           | Some a \<Rightarrow>
               Inr (u\<lparr>u_reverse_index := AList.delete obj (u_reverse_index u),
                      u_index := AList.delete addr (u_index u)\<rparr>)))"

text \<open>\<open>Unit.listdir(*address)\<close>: the names in the dict at the address, or \<open>None\<close>.\<close>

fun listdir_walk :: "(nat \<Rightarrow> (string \<times> nat) list) \<Rightarrow> nat \<Rightarrow> string list \<Rightarrow> string list option" where
  "listdir_walk h p [] = Some (map fst (h p))"
| "listdir_walk h p (x # xs) =
     (case map_of (h p) x of
        Some q \<Rightarrow> listdir_walk h q xs
      | None \<Rightarrow> None)"

definition listdir :: "unit_state \<Rightarrow> string list \<Rightarrow> string list option" where
  "listdir u addr = listdir_walk (dicts u) (u_hierarchy u) addr"

text \<open>
  Dict identities in use are below \<open>next_dict\<close>: the root is, and so is every dict stored
  in a dict that is (a new \<open>dict()\<close> is a new object).
\<close>

definition dicts_allocated :: "(nat \<Rightarrow> (string \<times> nat) list) \<Rightarrow> nat \<Rightarrow> bool" where
  "dicts_allocated h n = list_all (\<lambda>q. list_all (\<lambda>e. snd e < n) (h q)) [0 ..< n]"

definition unit_wf :: "unit_state \<Rightarrow> bool" where
  "unit_wf u = (u_hierarchy u < next_dict u \<and> dicts_allocated (dicts u) (next_dict u))"

section \<open>flows.py: Transports\<close>

text \<open>
  A pair of Transports (input, polarity 1; output, polarity -1) shares one stack of
  protocol layers. A layer is an object of a protocol implementation outside the
  repository; \<open>operation_set[x.__class__](x)\<close> gives, for each direction, the callables
  (transfer, has-work-here, opposite-has-work) bound to it. With \<open>'s\<close> the state of a layer
  object, \<open>layer_ops\<close> holds those callables and the layer's \<open>terminated\<close> attribute as
  functions of the state. Layers are referred to by identity; \<open>layer_state\<close> is the store.
\<close>

type_synonym events = "nat list"

record 's layer_ops =
  in_xfer :: "'s \<Rightarrow> events \<Rightarrow> 's \<times> events"
  in_here :: "'s \<Rightarrow> bool"
  in_opposite :: "'s \<Rightarrow> bool"
  out_xfer :: "'s \<Rightarrow> events \<Rightarrow> 's \<times> events"
  out_here :: "'s \<Rightarrow> bool"
  out_opposite :: "'s \<Rightarrow> bool"
  l_terminated :: "'s \<Rightarrow> bool"

datatype which = Input | Output

fun other :: "which \<Rightarrow> which" where
  "other Input = Output"
| "other Output = Input"

text \<open>
  One Transports instance. \<open>process_discarding\<close>: \<open>self.process\<close> has been rebound to
  \<open>f_discarding\<close>; \<open>f_emit_bound\<close>: \<open>self.f_emit\<close> is the downstream's \<open>process\<close>;
  \<open>has_downstream\<close>: \<open>self.f_downstream\<close> is not \<open>None\<close>; \<open>has_controller\<close>:
  \<open>self.controller\<close> is not \<open>None\<close>.
\<close>

record side =
  tf_polarity :: int
  tf_operations :: "nat list"
  s_terminating :: bool
  s_terminated :: bool
  process_discarding :: bool
  f_emit_bound :: bool
  has_downstream :: bool
  has_controller :: bool

text \<open>What the pair does to its surroundings, in order.\<close>

datatype action =
  Emitted which events | DownstreamTerminated which | DownstreamIgnored which | Exited which

record 's transports =
  tf_stack :: "nat list"
  layer_state :: "nat \<Rightarrow> 's"
  side_in :: side
  side_out :: side
  actions :: "action list"

fun side_of :: "which \<Rightarrow> 's transports \<Rightarrow> side" where
  "side_of Input t = side_in t"
| "side_of Output t = side_out t"

fun side_update :: "which \<Rightarrow> (side \<Rightarrow> side) \<Rightarrow> 's transports \<Rightarrow> 's transports" where
  "side_update Input f t = t\<lparr>side_in := f (side_in t)\<rparr>"
| "side_update Output f t = t\<lparr>side_out := f (side_out t)\<rparr>"

text \<open>
  The class attribute \<open>Transports.polarity = 0\<close>. \<open>__init__\<close> stores its argument in
  \<open>self.tf_polarity\<close> and never assigns \<open>self.polarity\<close>, so \<open>self.polarity\<close> reads this
  class attribute on every instance.
\<close>

definition polarity :: int where
  "polarity = 0"

text \<open>\<open>self.f_emit(events)\<close>.\<close>

definition tf_emit :: "which \<Rightarrow> events \<Rightarrow> 's transports \<Rightarrow> 's transports" where
  "tf_emit w ev t =
     (if f_emit_bound (side_of w t) then t\<lparr>actions := actions t @ [Emitted w ev]\<rparr> else t)"

text \<open>The callables of a layer as seen from one side.\<close>

fun xfer :: "'s layer_ops \<Rightarrow> which \<Rightarrow> 's \<Rightarrow> events \<Rightarrow> 's \<times> events" where
  "xfer L Input = in_xfer L"
| "xfer L Output = out_xfer L"

fun opposite_has_work :: "'s layer_ops \<Rightarrow> which \<Rightarrow> 's \<Rightarrow> bool" where
  "opposite_has_work L Input = in_opposite L"
| "opposite_has_work L Output = out_opposite L"

text \<open>
  The first loop of \<open>process\<close>: pipe the events through every layer of this side and note
  whether a layer reports work for the opposite side.
\<close>

fun pipe ::
  "'s layer_ops \<Rightarrow> which \<Rightarrow> nat list \<Rightarrow> events \<Rightarrow> (nat \<Rightarrow> 's) \<Rightarrow> bool \<Rightarrow>
   (nat \<Rightarrow> 's) \<times> events \<times> bool" where
  "pipe L w [] ev ls ohw = (ls, ev, ohw)"
| "pipe L w (l # rest) ev ls ohw =
     (case xfer L w (ls l) ev of
        (s', ev') \<Rightarrow>
          (let ls' = ls(l := s');
               ohw' = (if ohw = False \<and> opposite_has_work L w (ls' l) then True else ohw)
           in pipe L w rest ev' ls' ohw'))"

text \<open>The second loop: \<open>x\<close> is 1 when some layer of this side still reports opposite work.\<close>

definition still_opposite_work :: "'s layer_ops \<Rightarrow> which \<Rightarrow> 's transports \<Rightarrow> nat" where
  "still_opposite_work L w t =
     (if list_ex (\<lambda>l. opposite_has_work L w (layer_state t l)) (tf_operations (side_of w t))
      then 1 else 0)"

text \<open>\<open>Channel.f_disconnect\<close>.\<close>

definition tf_disconnect :: "which \<Rightarrow> 's transports \<Rightarrow> 's transports" where
  "tf_disconnect w t =
     (let t1 = (if has_downstream (side_of w t)
                then (side_update w (\<lambda>s. s\<lparr>has_downstream := False\<rparr>) t)
                       \<lparr>actions := actions t @ [DownstreamIgnored w]\<rparr>
                else t)
      in side_update w (\<lambda>s. s\<lparr>f_emit_bound := False\<rparr>) t1)"

text \<open>
  Modelled from the spec: \<open>termination_started\<close> and \<open>termination_completed\<close> of the
  processor base class are not in the sources; the first marks the processor as
  terminating, the second ends the terminating state and marks it terminated.
\<close>

definition termination_completed :: "side \<Rightarrow> side" where
  "termination_completed s = s\<lparr>s_terminating := False, s_terminated := True\<rparr>"

text \<open>\<open>Channel._f_terminated\<close>.\<close>

definition tf_terminated :: "which \<Rightarrow> 's transports \<Rightarrow> 's transports" where
  "tf_terminated w t =
     (let t1 = side_update w
                 (\<lambda>s. termination_completed (s\<lparr>process_discarding := True,
                                                  f_emit_bound := False\<rparr>)) t;
          t2 = (if has_downstream (side_of w t1)
                then t1\<lparr>actions := actions t1 @ [DownstreamIgnored w, DownstreamTerminated w]\<rparr>
                else t1)
      in if has_controller (side_of w t2) then t2\<lparr>actions := actions t2 @ [Exited w]\<rparr> else t2)"

text \<open>
  The body of the \<open>while\<close> loop of \<open>process\<close> after \<open>del stack[-1]\<close>: drop the layer's
  operations on both sides, terminate and disconnect the input side's downstream.
  \<open>del xs[i]\<close> on an empty list raises IndexError and \<open>None.f_terminate()\<close> AttributeError.
\<close>

definition pop_layer :: "which \<Rightarrow> 's transports \<Rightarrow> py_error + 's transports" where
  "pop_layer w t =
     (let inp = (if tf_polarity (side_of w t) = 1 then w else other w) in
      if tf_operations (side_of inp t) = [] \<or> tf_operations (side_of (other inp) t) = []
      then Inl IndexError
      else
        (let t1 = side_update inp (\<lambda>s. s\<lparr>tf_operations := butlast (tf_operations s)\<rparr>) t;
             t2 = side_update (other inp) (\<lambda>s. s\<lparr>tf_operations := tl (tf_operations s)\<rparr>) t1
         in if has_downstream (side_of inp t2)
            then Inr (tf_disconnect inp (t2\<lparr>actions := actions t2 @ [DownstreamTerminated inp]\<rparr>))
            else Inl AttributeError))"

text \<open>
  \<open>while stack and stack[-1].terminated\<close>, by recursion over the stack from its top
  (the first argument is the stack reversed; the body does not touch the stack
  otherwise).
\<close>

fun pop_loop :: "'s layer_ops \<Rightarrow> which \<Rightarrow> nat list \<Rightarrow> 's transports \<Rightarrow> py_error + 's transports" where
  "pop_loop L w [] t = Inr t"
| "pop_loop L w (l # below) t =
     (if l_terminated L (layer_state t l) then
        (case pop_layer w (t\<lparr>tf_stack := rev below\<rparr>) of
           Inl e \<Rightarrow> Inl e
         | Inr t' \<Rightarrow> pop_loop L w below t')
      else Inr t)"

text \<open>The loop and its \<open>else\<close> clause, which runs whenever the loop ends.\<close>

definition tear_down :: "'s layer_ops \<Rightarrow> which \<Rightarrow> 's transports \<Rightarrow> py_error + 's transports" where
  "tear_down L w t =
     (case pop_loop L w (rev (tf_stack t)) t of
        Inl e \<Rightarrow> Inl e
      | Inr t1 \<Rightarrow>
          if tf_stack t1 = [] then
            (let t2 = (if s_terminating (side_of w t1) then tf_terminated w t1 else t1);
                 t3 = (if s_terminating (side_of (other w) t2)
                       then tf_terminated (other w) t2 else t2)
             in Inr t3)
          else Inr t1)"

text \<open>
  \<open>Transports.process(events)\<close> on side \<open>w\<close>. The call of the opposite side's
  \<open>process(())\<close> is a Python recursion; the first argument bounds its depth, as the
  interpreter's recursion limit does (RecursionError when it is exhausted).
\<close>

fun tf_process ::
  "nat \<Rightarrow> 's layer_ops \<Rightarrow> which \<Rightarrow> events \<Rightarrow> 's transports \<Rightarrow> py_error + 's transports" where
  "tf_process 0 L w ev t = Inl RecursionError"
| "tf_process (Suc n) L w ev t =
     (if process_discarding (side_of w t) then Inr t
      else if tf_operations (side_of w t) = [] then Inr (tf_emit w ev t)
      else
        (case pipe L w (tf_operations (side_of w t)) ev (layer_state t) False of
           (ls', ev', opposite_work) \<Rightarrow>
             (let t1 = tf_emit w ev' (t\<lparr>layer_state := ls'\<rparr>) in
              if opposite_work then
                (case tf_process n L (other w) [] t1 of
                   Inl e \<Rightarrow> Inl e
                 | Inr t2 \<Rightarrow>
                     if still_opposite_work L w t2 \<noteq> 0 \<and> polarity = - 1 \<and>
                        s_terminating (side_of (other w) t2)
                     then Inl (PyException ''transport stack deadlock'')
                     else tear_down L w t2)
              else tear_down L w t1)))"

text \<open>
  A pair over one layer that passes events through unchanged, never terminates, and
  whose output direction always reports work for the input direction; the input side is
  terminating.
\<close>

definition stuck_layer :: "unit layer_ops" where
  "stuck_layer =
     \<lparr>in_xfer = (\<lambda>s ev. (s, ev)), in_here = (\<lambda>s. False), in_opposite = (\<lambda>s. False),
      out_xfer = (\<lambda>s ev. (s, ev)), out_here = (\<lambda>s. False), out_opposite = (\<lambda>s. True),
      l_terminated = (\<lambda>s. False)\<rparr>"

definition stuck_pair :: "unit transports" where
  "stuck_pair =
     \<lparr>tf_stack = [0], layer_state = (\<lambda>l. ()),
      side_in = \<lparr>tf_polarity = 1, tf_operations = [0], s_terminating = True,
                 s_terminated = False, process_discarding = False, f_emit_bound = True,
                 has_downstream = True, has_controller = True\<rparr>,
      side_out = \<lparr>tf_polarity = - 1, tf_operations = [0], s_terminating = False,
                  s_terminated = False, process_discarding = False, f_emit_bound = True,
                  has_downstream = True, has_controller = True\<rparr>,
      actions = []\<rparr>"

section \<open>flows.py: Catenation\<close>

text \<open>
  Layers and upstream flows are identities. The events sent downstream are the tuples
  \<open>(initiate, layer)\<close>, \<open>(transfer, layer, events)\<close> and \<open>(terminate, layer)\<close>.
  \<open>cat_connections\<close> maps a connected flow to (queue or \<open>None\<close>, layer, termination),
  \<open>cat_flows\<close> a layer to its flow or \<open>None\<close>.

  Besides the attributes of the Catenation the state holds its surroundings: the tasks it
  has enqueued with \<open>ctx_enqueue_task\<close> and that the context has not run yet (a FIFO
  queue), the batches it has passed to \<open>f_emit\<close>, and the upstream flows it has obstructed
  (\<open>source.f_obstruct(self, ...)\<close>, removed again by \<open>f.f_clear(self)\<close>). The downstream
  is taken never to obstruct the Catenation, and the upstream flows to have no other
  obstruction.
\<close>

datatype fc_event = Initiate nat | Transfer nat events | Terminate nat

datatype cat_task = CatFlush | CatDrain

record catenation =
  cat_order :: "nat list"
  cat_connections :: "(nat \<times> (events list option \<times> nat \<times> bool option)) list"
  cat_flows :: "(nat \<times> nat option) list"
  cat_events :: "fc_event list"
  cat_terminating :: bool
  cat_discarding :: bool
  cat_tasks :: "cat_task list"
  cat_emitted :: "fc_event list list"
  cat_obstructed :: "nat list"

definition cat_init :: catenation where
  "cat_init =
     \<lparr>cat_order = [], cat_connections = [], cat_flows = [], cat_events = [],
      cat_terminating = False, cat_discarding = False, cat_tasks = [], cat_emitted = [],
      cat_obstructed = []\<rparr>"

text \<open>\<open>if not self.cat_events: self.ctx_enqueue_task(self.cat_flush)\<close> followed by the append.\<close>

definition cat_add :: "fc_event \<Rightarrow> catenation \<Rightarrow> catenation" where
  "cat_add e c =
     (let c1 = (if cat_events c = [] then c\<lparr>cat_tasks := cat_tasks c @ [CatFlush]\<rparr> else c)
      in c1\<lparr>cat_events := cat_events c1 @ [e]\<rparr>)"

definition cat_overflowing :: "catenation \<Rightarrow> nat \<Rightarrow> py_error + bool" where
  "cat_overflowing c flow =
     (case map_of (cat_connections c) flow of
        None \<Rightarrow> Inl KeyError
      | Some (q, layer, term) \<Rightarrow>
          (case q of None \<Rightarrow> Inr False | Some qs \<Rightarrow> Inr (length qs > 8)))"

text \<open>\<open>Catenation.cat_transition\<close>.\<close>

definition cat_transition :: "catenation \<Rightarrow> py_error + catenation" where
  "cat_transition c =
     (case cat_order c of
        [] \<Rightarrow> Inl AssertionError
      | l # rest \<Rightarrow>
          (case map_of (cat_flows c) l of
             None \<Rightarrow> Inl KeyError
           | Some f \<Rightarrow>
               (let c1 = c\<lparr>cat_order := rest, cat_flows := AList.delete l (cat_flows c)\<rparr>;
                    c2 = (case f of
                            None \<Rightarrow> Inr c1
                          | Some fl \<Rightarrow>
                              (case map_of (cat_connections c1) fl of
                                 None \<Rightarrow> Inl KeyError
                               | Some x \<Rightarrow>
                                   Inr (c1\<lparr>cat_connections :=
                                               AList.delete fl (cat_connections c1)\<rparr>)))
                in case c2 of
                     Inl e \<Rightarrow> Inl e
                   | Inr c3 \<Rightarrow>
                       (let c4 = cat_add (Terminate l) c3 in
                        case cat_order c4 of
                          [] \<Rightarrow> Inr c4
                        | n # others \<Rightarrow>
                            if map_of (cat_flows c4) n \<noteq> None
                            then Inr (c4\<lparr>cat_tasks := cat_tasks c4 @ [CatDrain]\<rparr>)
                            else Inr c4))))"

text \<open>\<open>Catenation.cat_transfer(events, source)\<close>.\<close>

definition cat_transfer :: "catenation \<Rightarrow> events \<Rightarrow> nat \<Rightarrow> py_error + catenation" where
  "cat_transfer c ev source =
     (case map_of (cat_connections c) source of
        None \<Rightarrow> Inl KeyError
      | Some (q, layer, term) \<Rightarrow>
          (case cat_order c of
             [] \<Rightarrow> Inl IndexError
           | hol # rest \<Rightarrow>
               if layer = hol then Inr (cat_add (Transfer layer ev) c)
               else
                 (case q of
                    None \<Rightarrow> Inl (PyException ''flow has not been connected'')
                  | Some qs \<Rightarrow>
                      (let c1 = c\<lparr>cat_connections :=
                                     AList.update source (Some (qs @ [ev]), layer, term)
                                       (cat_connections c)\<rparr>
                       in if source \<notin> set (cat_obstructed c1) \<and> length (qs @ [ev]) > 8
                          then Inr (c1\<lparr>cat_obstructed := cat_obstructed c1 @ [source]\<rparr>)
                          else Inr c1))))"

text \<open>
  \<open>Catenation.process(events, source)\<close>: a transfer from a connected source, otherwise a
  reservation of the given layers. After \<open>_f_terminated\<close> the method is \<open>f_discarding\<close>.
\<close>

definition cat_process :: "catenation \<Rightarrow> events \<Rightarrow> nat \<Rightarrow> py_error + catenation" where
  "cat_process c ev source =
     (if cat_discarding c then Inr c
      else if map_of (cat_connections c) source \<noteq> None then cat_transfer c ev source
      else Inr (c\<lparr>cat_order := cat_order c @ ev\<rparr>))"

text \<open>\<open>Catenation.cat_terminate(subflow)\<close>.\<close>

definition cat_terminate :: "catenation \<Rightarrow> nat \<Rightarrow> py_error + catenation" where
  "cat_terminate c subflow =
     (case map_of (cat_connections c) subflow of
        None \<Rightarrow> Inl KeyError
      | Some (q, layer, term) \<Rightarrow>
          (case cat_order c of
             [] \<Rightarrow> Inl IndexError
           | hol # rest \<Rightarrow>
               if layer = hol then cat_transition c
               else Inr (c\<lparr>cat_connections :=
                              AList.update subflow (q, layer, Some True) (cat_connections c)\<rparr>)))"

text \<open>
  \<open>Catenation.cat_flush\<close>; with no reservation left in a terminating state it finishes
  with \<open>_f_terminated\<close>, which rebinds \<open>process\<close> and \<open>f_emit\<close> to \<open>f_discarding\<close>
  and completes the termination (the terminating state ends, as modelled for the
  Transports above).
\<close>

definition cat_flush :: "catenation \<Rightarrow> catenation" where
  "cat_flush c =
     (let c1 = c\<lparr>cat_events := [],
                 cat_emitted := (if cat_discarding c then cat_emitted c
                                 else cat_emitted c @ [cat_events c])\<rparr>
      in if cat_terminating c1 \<and> length (cat_order c1) = 0
         then c1\<lparr>cat_discarding := True, cat_terminating := False\<rparr>
         else c1)"

text \<open>
  \<open>Catenation.f_terminate(context)\<close>; \<open>termination_started\<close> marks the Catenation as
  terminating.
\<close>

definition cat_f_terminate :: "catenation \<Rightarrow> nat option \<Rightarrow> py_error + catenation" where
  "cat_f_terminate c context =
     (let not_a_subflow =
            (if \<not> cat_terminating c then Inr (cat_flush (c\<lparr>cat_terminating := True\<rparr>))
             else Inr c)
      in case context of
           None \<Rightarrow> not_a_subflow
         | Some f \<Rightarrow>
             (case map_of (cat_connections c) f of
                None \<Rightarrow> not_a_subflow
              | Some cxn \<Rightarrow> cat_terminate c f))"

text \<open>\<open>Catenation.cat_reserve(layer)\<close>.\<close>

definition cat_reserve :: "catenation \<Rightarrow> nat \<Rightarrow> catenation" where
  "cat_reserve c layer = c\<lparr>cat_order := cat_order c @ [layer]\<rparr>"

text \<open>\<open>Catenation.cat_connect(layer, flow)\<close>.\<close>

definition cat_connect :: "catenation \<Rightarrow> nat \<Rightarrow> nat option \<Rightarrow> py_error + catenation" where
  "cat_connect c layer flow =
     (case cat_order c of
        [] \<Rightarrow> Inl AssertionError
      | hol # rest \<Rightarrow>
          if hol = layer then
            (let c1 = (case flow of
                         None \<Rightarrow> c
                       | Some f \<Rightarrow> c\<lparr>cat_connections :=
                                        AList.update f (None, layer, None) (cat_connections c)\<rparr>);
                 c2 = c1\<lparr>cat_flows := AList.update layer flow (cat_flows c1)\<rparr>;
                 c3 = cat_add (Initiate layer) c2
             in case flow of None \<Rightarrow> cat_transition c3 | Some f \<Rightarrow> Inr c3)
          else
            (let c1 = c\<lparr>cat_flows := AList.update layer flow (cat_flows c)\<rparr>
             in case flow of
                  None \<Rightarrow> Inr c1
                | Some f \<Rightarrow>
                    Inr (c1\<lparr>cat_connections :=
                              AList.update f (Some [], layer, None) (cat_connections c1)\<rparr>)))"

text \<open>\<open>Catenation.cat_drain\<close>.\<close>

definition cat_drain :: "catenation \<Rightarrow> py_error + catenation" where
  "cat_drain c =
     (case cat_order c of
        [] \<Rightarrow> Inl AssertionError
      | hol # rest \<Rightarrow>
          (case map_of (cat_flows c) hol of
             None \<Rightarrow> Inl KeyError
           | Some None \<Rightarrow> Inl KeyError
           | Some (Some f) \<Rightarrow>
               (case map_of (cat_connections c) f of
                  None \<Rightarrow> Inl KeyError
                | Some (q, l, term) \<Rightarrow>
                    (let c1 = cat_add (Initiate l) c in
                     case q of
                       None \<Rightarrow> Inl AttributeError
                     | Some qs \<Rightarrow>
                         (let c2 = c1\<lparr>cat_events := cat_events c1 @ map (Transfer l) qs,
                                      cat_connections :=
                                        AList.update f (Some [], l, term) (cat_connections c1)\<rparr>
                          in case term of
                               None \<Rightarrow>
                                 Inr (c2\<lparr>cat_connections :=
                                           AList.update f (None, l, term) (cat_connections c2),
                                         cat_obstructed := removeAll f (cat_obstructed c2)\<rparr>)
                             | Some b \<Rightarrow> cat_transition c2)))))"

text \<open>
  What happens to a Catenation: the calls of its users and upstream flows, and the context
  running the next enqueued task. An exception in a task faults the processor; here it
  ends the run.
\<close>

datatype cat_op =
  Reserve nat | Connect nat "nat option" | Process events nat | UpTerminate nat | RunTask

fun cat_step :: "catenation \<Rightarrow> cat_op \<Rightarrow> py_error + catenation" where
  "cat_step c (Reserve layer) = Inr (cat_reserve c layer)"
| "cat_step c (Connect layer flow) = cat_connect c layer flow"
| "cat_step c (Process ev source) = cat_process c ev source"
| "cat_step c (UpTerminate flow) = cat_f_terminate c (Some flow)"
| "cat_step c RunTask =
     (case cat_tasks c of
        [] \<Rightarrow> Inr c
      | CatFlush # rest \<Rightarrow> Inr (cat_flush (c\<lparr>cat_tasks := rest\<rparr>))
      | CatDrain # rest \<Rightarrow> cat_drain (c\<lparr>cat_tasks := rest\<rparr>))"

fun cat_run :: "catenation \<Rightarrow> cat_op list \<Rightarrow> py_error + catenation" where
  "cat_run c [] = Inr c"
| "cat_run c (x # xs) = (case cat_step c x of Inl e \<Rightarrow> Inl e | Inr c' \<Rightarrow> cat_run c' xs)"

text \<open>Everything the downstream has received, in order.\<close>

definition cat_observed :: "py_error + catenation \<Rightarrow> fc_event list" where
  "cat_observed r = (case r of Inl e \<Rightarrow> [] | Inr c \<Rightarrow> concat (cat_emitted c))"

text \<open>
  The order the specification promises the downstream, for layers reserved in the order
  given: for each layer in turn its \<open>initiate\<close>, then only its \<open>transfer\<close> events, then its
  \<open>terminate\<close>; the flag says whether the first layer has been initiated. Any prefix of
  such a sequence is accepted.
\<close>

fun sequenced :: "nat list \<Rightarrow> bool \<Rightarrow> fc_event list \<Rightarrow> bool" where
  "sequenced ls opened [] = True"
| "sequenced (l # ls) False (Initiate k # es) = (k = l \<and> sequenced (l # ls) True es)"
| "sequenced (l # ls) True (Transfer k p # es) = (k = l \<and> sequenced (l # ls) True es)"
| "sequenced (l # ls) True (Terminate k # es) = (k = l \<and> sequenced ls False es)"
| "sequenced ls opened (e # es) = False"

text \<open>The payloads the downstream has received for one layer, in order.\<close>

fun transfers_of :: "nat \<Rightarrow> fc_event list \<Rightarrow> events list" where
  "transfers_of l [] = []"
| "transfers_of l (Transfer k p # es) = (if k = l then p # transfers_of l es else transfers_of l es)"
| "transfers_of l (e # es) = transfers_of l es"

text \<open>
  Scenario 1 of the specification: reserve layers 1 and 2, connect layer 2's upstream
  (flow 102) first and send \<open>[20, 21]\<close>, connect layer 1's upstream (flow 101), send
  \<open>[10, 11]\<close> and terminate it, let the context run, terminate flow 102.
\<close>

definition fan_in_trace :: "cat_op list" where
  "fan_in_trace =
     [Reserve 1, Reserve 2, Connect 2 (Some 102), Process [20, 21] 102, Connect 1 (Some 101),
      Process [10, 11] 101, UpTerminate 101, RunTask, RunTask, RunTask, UpTerminate 102,
      RunTask]"

text \<open>
  The same set-up in which flow 102 sends \<open>[20]\<close> while queued and \<open>[21]\<close> after flow 101
  has terminated but before the context has run the tasks enqueued by that termination.
\<close>

definition race_trace :: "cat_op list" where
  "race_trace =
     [Reserve 1, Reserve 2, Connect 2 (Some 102), Process [20] 102, Connect 1 (Some 101),
      Process [10] 101, UpTerminate 101, Process [21] 102, RunTask, RunTask, RunTask,
      UpTerminate 102, RunTask]"

section \<open>library.py: Processor, Sector and at-exit callbacks\<close>

text \<open>
  Processors are objects in a store, referred to by identity. A processor is a plain
  \<open>Processor\<close> or a \<open>Sector\<close>; \<open>controller\<close> is the identity of the controlling processor
  or \<open>None\<close>. A Sector's \<open>processors\<close> (a dict of sets keyed by class) is the list of its
  members, \<open>exits\<close> the set of exiting processors or \<open>None\<close>, and its \<open>scheduler\<close> is
  \<open>None\<close>. \<open>exit_event_connections\<close> maps a controlled processor to its at-exit
  callbacks.

  The context's task queue holds the enqueued tasks that have not run: a Sector's \<open>reap\<close>
  or an at-exit callback applied to a processor. \<open>invoked\<close> logs the at-exit callbacks
  called, each with the processor it was called with.
\<close>

datatype kind = PlainProcessor | SectorProcessor

record processor =
  kind :: kind
  actuated :: bool
  terminated :: bool
  p_terminating :: "bool option"
  interrupted :: bool
  interruptor :: "nat option"
  terminator :: "nat option"
  controller :: "nat option"
  exit_event_connections :: "(nat \<times> callback list) list option"
  processors :: "nat list"
  exits :: "nat list option"

datatype task = Reap nat | ExitCallback callback nat

record world =
  procs :: "nat \<Rightarrow> processor"
  tasks :: "task list"
  invoked :: "(callback \<times> nat) list"

definition new_processor :: "kind \<Rightarrow> processor" where
  "new_processor k =
     \<lparr>kind = k, actuated = False, terminated = False, p_terminating = None,
      interrupted = False, interruptor = None, terminator = None, controller = None,
      exit_event_connections = None, processors = [], exits = None\<rparr>"

definition proc_update :: "nat \<Rightarrow> (processor \<Rightarrow> processor) \<Rightarrow> world \<Rightarrow> world" where
  "proc_update p f w = w\<lparr>procs := (procs w)(p := f (procs w p))\<rparr>"

text \<open>\<open>Processor.functioning\<close>.\<close>

definition functioning :: "processor \<Rightarrow> bool" where
  "functioning p = (actuated p \<and> \<not> (terminated p \<or> interrupted p))"

text \<open>\<open>Processor.interrupt(by)\<close>.\<close>

definition processor_interrupt :: "world \<Rightarrow> nat \<Rightarrow> nat option \<Rightarrow> world" where
  "processor_interrupt w p by =
     (if interrupted (procs w p) then w
      else proc_update p (\<lambda>x. x\<lparr>interruptor := by, interrupted := True\<rparr>) w)"

text \<open>
  \<open>x.interrupt()\<close> on a processor of either class; for a Sector, \<open>Sector.interrupt\<close>
  interrupts every member. The first argument bounds the depth of the calls through
  nested sectors (\<open>None\<close> when it is too small for the tree).
\<close>

fun interrupt :: "nat \<Rightarrow> world \<Rightarrow> nat \<Rightarrow> nat option \<Rightarrow> world option" where
  "interrupt 0 w p by = None"
| "interrupt (Suc n) w p by =
     (case kind (procs w p) of
        PlainProcessor \<Rightarrow> Some (processor_interrupt w p by)
      | SectorProcessor \<Rightarrow>
          if interrupted (procs w p) then Some w
          else fold (\<lambda>x acc. case acc of None \<Rightarrow> None | Some w' \<Rightarrow> interrupt n w' x None)
                 (processors (procs w p)) (Some (processor_interrupt w p by)))"

text \<open>\<open>Sector.exited(processor)\<close> on the sector \<open>s\<close>.\<close>

definition exited :: "world \<Rightarrow> nat \<Rightarrow> nat \<Rightarrow> world" where
  "exited w s p =
     (let w1 = (case exits (procs w s) of
                  None \<Rightarrow> (proc_update s (\<lambda>x. x\<lparr>exits := Some []\<rparr>) w)
                            \<lparr>tasks := tasks w @ [Reap s]\<rparr>
                | Some xs \<Rightarrow> w)
      in proc_update s
           (\<lambda>x. x\<lparr>exits := Some (set_add p (case exits x of None \<Rightarrow> [] | Some xs \<Rightarrow> xs))\<rparr>) w1)"

text \<open>\<open>Processor.exit_event_connect(processor, callback)\<close> on the controller \<open>c\<close>.\<close>

definition exit_event_connect :: "world \<Rightarrow> nat \<Rightarrow> nat \<Rightarrow> callback \<Rightarrow> py_error + world" where
  "exit_event_connect w c p cb =
     (if controller (procs w p) \<noteq> Some c then Inl AssertionError
      else
        (let eec = (case exit_event_connections (procs w c) of None \<Rightarrow> [] | Some e \<Rightarrow> e);
             cbl = (case map_of eec p of None \<Rightarrow> [] | Some l \<Rightarrow> l)
         in Inr (proc_update c
                  (\<lambda>x. x\<lparr>exit_event_connections := Some (AList.update p (cbl @ [cb]) eec)\<rparr>) w)))"

text \<open>\<open>Processor.atexit(exit_callback)\<close>.\<close>

definition atexit :: "world \<Rightarrow> nat \<Rightarrow> callback \<Rightarrow> py_error + world" where
  "atexit w p cb =
     (if terminated (procs w p) then Inr (w\<lparr>invoked := invoked w @ [(cb, p)]\<rparr>)
      else (case controller (procs w p) of
              None \<Rightarrow> Inl AttributeError
            | Some c \<Rightarrow> exit_event_connect w c p cb))"

text \<open>\<open>Processor.exit_event_emit(processor)\<close> on the controller \<open>c\<close>.\<close>

definition exit_event_emit :: "world \<Rightarrow> nat \<Rightarrow> nat \<Rightarrow> world" where
  "exit_event_emit w c p =
     (case exit_event_connections (procs w c) of
        None \<Rightarrow> w
      | Some eec \<Rightarrow>
          (let cbs = (case map_of eec p of None \<Rightarrow> [] | Some l \<Rightarrow> l);
               eec' = AList.delete p eec;
               w1 = w\<lparr>tasks := tasks w @ map (\<lambda>cb. ExitCallback cb p) cbs\<rparr>
           in proc_update c
                (\<lambda>x. x\<lparr>exit_event_connections := (if eec' = [] then None else Some eec')\<rparr>) w1))"

text \<open>\<open>Sector.reaped\<close>.\<close>

definition reaped :: "world \<Rightarrow> nat \<Rightarrow> world" where
  "reaped w s =
     (if processors (procs w s) = [] \<and> \<not> interrupted (procs w s) then
        (let w1 = proc_update s (\<lambda>x. x\<lparr>terminated := True, p_terminating := Some False\<rparr>) w
         in case controller (procs w1 s) of
              None \<Rightarrow> w1
            | Some c \<Rightarrow> exited w1 c s)
      else w)"

text \<open>\<open>Sector.reap\<close>.\<close>

definition reap :: "world \<Rightarrow> nat \<Rightarrow> world" where
  "reap w s =
     (case exits (procs w s) of
        None \<Rightarrow> w
      | Some xs \<Rightarrow>
          (let w1 = proc_update s (\<lambda>x. x\<lparr>exits := None\<rparr>) w;
               w2 = fold (\<lambda>x acc. exit_event_emit
                                     (proc_update s
                                        (\<lambda>y. y\<lparr>processors := removeAll x (processors y)\<rparr>) acc)
                                     s x)
                      xs w1
           in reaped w2 s))"

text \<open>
  \<open>Sector.dispatch(processor)\<close>, for a processor without members of its own:
  \<open>actuate\<close> sets \<open>actuated\<close>.
\<close>

definition dispatch :: "world \<Rightarrow> nat \<Rightarrow> nat \<Rightarrow> world" where
  "dispatch w s p =
     (let w1 = proc_update p (\<lambda>x. x\<lparr>controller := Some s\<rparr>) w;
          w2 = proc_update s (\<lambda>x. x\<lparr>processors := set_add p (processors x)\<rparr>) w1
      in proc_update p (\<lambda>x. x\<lparr>actuated := True\<rparr>) w2)"

text \<open>
  \<open>Processor.terminate(by)\<close>, and \<open>Sector.terminate(by)\<close> for a Sector without members
  (the branch "Nothing to wait for").
\<close>

definition processor_terminate :: "world \<Rightarrow> nat \<Rightarrow> nat option \<Rightarrow> world \<times> bool" where
  "processor_terminate w p by =
     (if \<not> functioning (procs w p) \<or> p_terminating (procs w p) = Some True then (w, False)
      else (proc_update p (\<lambda>x. x\<lparr>p_terminating := Some True, terminator := by\<rparr>) w, True))"

definition empty_sector_terminate :: "world \<Rightarrow> nat \<Rightarrow> nat option \<Rightarrow> py_error + world" where
  "empty_sector_terminate w s by =
     (case processor_terminate w s by of
        (w1, False) \<Rightarrow> Inr w1
      | (w1, True) \<Rightarrow>
          (case controller (procs w1 s) of
             None \<Rightarrow> Inl AttributeError
           | Some c \<Rightarrow>
               Inr (proc_update s (\<lambda>x. x\<lparr>terminated := True, p_terminating := Some False\<rparr>)
                      (exited w1 c s))))"

text \<open>
  \<open>Resource.sector\<close>: the nearest Sector among the controllers, or \<open>None\<close>. The first
  argument bounds the length of the controller chain followed; the outer \<open>None\<close> says
  that it was too small.
\<close>

fun sector_of :: "nat \<Rightarrow> world \<Rightarrow> nat option \<Rightarrow> nat option option" where
  "sector_of 0 w c = None"
| "sector_of (Suc n) w None = Some None"
| "sector_of (Suc n) w (Some c) =
     (if kind (procs w c) = SectorProcessor then Some (Some c)
      else sector_of n w (controller (procs w c)))"

text \<open>
  \<open>Unit.faulted(resource)\<close>, reached from \<open>Processor.fault\<close> through the context. The
  placement of the faulted sector under \<open>faults/\<close> does not touch the processors and is
  left out; the faulted sector's controller is a Sector. The result is \<open>None\<close> when the
  bound is too small for the tree.
\<close>

definition faulted :: "nat \<Rightarrow> world \<Rightarrow> nat \<Rightarrow> (py_error + world) option" where
  "faulted n w resource =
     (case sector_of n w (controller (procs w resource)) of
        None \<Rightarrow> None
      | Some sec \<Rightarrow>
          (let faultor = (case sec of None \<Rightarrow> resource | Some s \<Rightarrow> s)
           in if interrupted (procs w faultor) then Some (Inr w)
              else (case interrupt n w faultor None of
                      None \<Rightarrow> None
                    | Some w1 \<Rightarrow>
                        if \<not> terminated (procs w1 faultor) then
                          (case controller (procs w1 faultor) of
                             None \<Rightarrow> Some (Inl AttributeError)
                           | Some c \<Rightarrow> Some (Inr (exited w1 c faultor)))
                        else Some (Inr w1))))"

text \<open>The context runs the next task of its queue.\<close>

definition run_task :: "world \<Rightarrow> world" where
  "run_task w =
     (case tasks w of
        [] \<Rightarrow> w
      | Reap s # rest \<Rightarrow> reap (w\<lparr>tasks := rest\<rparr>) s
      | ExitCallback cb p # rest \<Rightarrow> w\<lparr>tasks := rest, invoked := invoked w @ [(cb, p)]\<rparr>)"

text \<open>
  Sector 1 controls sector 2, which controls the plain processor 3. Callback 9 is
  registered with \<open>atexit\<close> on sector 2.
\<close>

definition sectors_example :: "py_error + world" where
  "sectors_example =
     (let w0 = \<lparr>procs = (\<lambda>i. new_processor PlainProcessor)
                   (1 := (new_processor SectorProcessor)\<lparr>actuated := True\<rparr>,
                    2 := new_processor SectorProcessor),
               tasks = [], invoked = []\<rparr>
      in atexit (dispatch (dispatch w0 1 2) 2 3) 2 9)"

text \<open>Sector 1 controls the sector 2, which has no members; callback 9 as before.\<close>

definition empty_sector_example :: "py_error + world" where
  "empty_sector_example =
     (let w0 = \<lparr>procs = (\<lambda>i. new_processor PlainProcessor)
                   (1 := (new_processor SectorProcessor)\<lparr>actuated := True\<rparr>,
                    2 := new_processor SectorProcessor),
               tasks = [], invoked = []\<rparr>
      in atexit (dispatch w0 1 2) 2 9)"

section \<open>Verified properties\<close>

subsection \<open>Auxiliary facts about channels\<close>

lemma update_ne_Nil: "AList.update k v al \<noteq> []"
  by (cases al) auto

lemma f_obstruct_inv: "chan_inv (fst (f_obstruct c k s cd))"
  by (auto simp: f_obstruct_def chan_inv_def Let_def update_ne_Nil)

lemma f_clear_inv: "chan_inv c \<Longrightarrow> chan_inv (fst (f_clear c k))"
  by (auto simp: f_clear_def chan_inv_def Let_def split: option.splits)

lemma f_obstruct_calls:
  "chan_inv c \<Longrightarrow> snd (f_obstruct c k s cd) =
     (if \<not> f_obstructed c \<and> f_obstructed (fst (f_obstruct c k s cd))
      then map fst (monitors_of c) else [])"
  by (auto simp: f_obstruct_def chan_inv_def Let_def f_obstructed_def dict_truthy_def
      monitors_of_def split: option.splits)

lemma f_clear_calls:
  "chan_inv c \<Longrightarrow> snd (snd (f_clear c k)) =
     (if f_obstructed c \<and> \<not> f_obstructed (fst (f_clear c k))
      then map snd (monitors_of c) else [])"
  by (auto simp: f_clear_def chan_inv_def Let_def f_obstructed_def dict_truthy_def
      monitors_of_def split: option.splits)

lemma f_clear_not_up: "\<not> f_obstructed c \<Longrightarrow> \<not> f_obstructed (fst (f_clear c k))"
  by (auto simp: f_clear_def Let_def f_obstructed_def split: option.splits)

lemma f_obstruct_up: "f_obstructed (fst (f_obstruct c k s cd))"
  by (auto simp: f_obstruct_def Let_def f_obstructed_def split: option.splits)

lemma f_obstruct_entry:
  "obstruction_of (fst (f_obstruct c k s cd)) k = Some (s, cd) \<and>
   f_obstructed (fst (f_obstruct c k s cd))"
  by (simp add: f_obstruct_def obstruction_of_def f_obstructed_def Let_def update_conv')

lemma f_clear_removes: "k \<notin> obstruction_keys (fst (f_clear c k))"
  using delete_notin_dom[of k]
  by (auto simp: f_clear_def obstruction_keys_def Let_def split: option.splits)

lemma f_clear_others: "k' \<noteq> k \<Longrightarrow> obstruction_of (fst (f_clear c k)) k' = obstruction_of c k'"
  apply (auto simp: f_clear_def obstruction_of_def Let_def delete_conv' split: option.splits)
  apply (metis delete_conv' map_of.simps(1) fun_upd_other)
  done

lemma chan_step_inv: "chan_inv c \<Longrightarrow> chan_inv (fst (chan_step c x))"
proof (cases x)
  case (Obstruct k s cd)
  then show ?thesis using f_obstruct_inv[of c k s cd] by simp
next
  case (Clear k)
  assume "chan_inv c"
  from f_clear_inv[OF this, of k] Clear show ?thesis by (auto split: prod.splits)
qed

lemma chan_step_calls:
  assumes "chan_inv c"
  shows "snd (chan_step c x) =
     (if \<not> f_obstructed c \<and> f_obstructed (fst (chan_step c x)) then map fst (monitors_of c)
      else if f_obstructed c \<and> \<not> f_obstructed (fst (chan_step c x)) then map snd (monitors_of c)
      else [])"
proof (cases x)
  case (Obstruct k s cd)
  then show ?thesis
    using f_obstruct_calls[OF assms, of k s cd] f_obstruct_up[of c k s cd] by simp
next
  case (Clear k)
  then show ?thesis
    using f_clear_calls[OF assms, of k] f_clear_not_up[of c k] by (auto split: prod.splits)
qed

subsection \<open>Channel.f_watch\<close>

text \<open>
  C9. \<open>f_watch(onObstruct, onClear)\<close> adds the callback pair to the monitor set and leaves
  the obstructions alone; on a channel that is obstructed at registration time it invokes
  \<open>onObstruct\<close> (once, with the channel), and on an unobstructed channel it invokes nothing.
\<close>

theorem f_watch_invokes_when_obstructed:
  "snd (f_watch c onObstruct onClear) = (if f_obstructed c then [onObstruct] else []) \<and>
   set (monitors_of (fst (f_watch c onObstruct onClear))) =
     insert (onObstruct, onClear) (set (monitors_of c)) \<and>
   f_obstructions (fst (f_watch c onObstruct onClear)) = f_obstructions c"
  by (auto simp: f_watch_def f_obstructed_def monitors_of_def set_add_def Let_def)

subsection \<open>Obstruction monitors\<close>

text \<open>
  C3. Over any sequence of \<open>f_obstruct\<close> and \<open>f_clear\<close> calls on a channel, the callbacks
  invoked are exactly: every registered \<open>onObstruct\<close> once at each step that takes the
  channel from no obstruction to at least one, every registered \<open>onClear\<close> once at each
  step that takes it back to none, and nothing else. In particular an \<open>f_obstruct\<close> on an
  already obstructed channel (a second key before any clear) invokes nothing.
\<close>

theorem monitors_once_per_transition:
  "chan_inv c \<Longrightarrow>
     snd (chan_run c ops) = expected_calls c ops \<and>
     (f_obstructed c \<longrightarrow> snd (f_obstruct c k s cd) = [])"
proof
  assume inv: "chan_inv c"
  then show "snd (chan_run c ops) = expected_calls c ops"
  proof (induction ops arbitrary: c)
    case Nil
    then show ?case by simp
  next
    case (Cons x xs)
    have "chan_inv (fst (chan_step c x))" using Cons.prems by (rule chan_step_inv)
    from Cons.IH[OF this] chan_step_calls[OF Cons.prems, of x]
    show ?case by (auto simp: Let_def split: prod.splits)
  qed
  show "f_obstructed c \<longrightarrow> snd (f_obstruct c k s cd) = []"
    using inv
    by (auto simp: f_obstruct_def chan_inv_def Let_def f_obstructed_def dict_truthy_def)
qed

theorem monitors_once_per_transition_witness:
  "chan_inv \<lparr>f_obstructions = None, f_monitors = Some [(1, 2)]\<rparr> \<and>
   snd (chan_run \<lparr>f_obstructions = None, f_monitors = Some [(1, 2)]\<rparr>
          [Obstruct 7 None None, Obstruct 8 None None, Clear 7, Clear 8]) = [1, 2] \<and>
   f_obstructed \<lparr>f_obstructions = Some [(7, None, None)], f_monitors = Some [(1, 2)]\<rparr> \<and>
   snd (f_obstruct \<lparr>f_obstructions = Some [(7, None, None)], f_monitors = Some [(1, 2)]\<rparr>
          8 None None) = []"
proof -
  have i1: "chan_inv \<lparr>f_obstructions = None, f_monitors = Some [(1, 2)]\<rparr>"
    by (simp add: chan_inv_def)
  have i2: "chan_inv \<lparr>f_obstructions = Some [(7, None, None)], f_monitors = Some [(1, 2)]\<rparr>"
    by (simp add: chan_inv_def)
  have o: "f_obstructed \<lparr>f_obstructions = Some [(7, None, None)], f_monitors = Some [(1, 2)]\<rparr>"
    by (simp add: f_obstructed_def)
  from monitors_once_per_transition[OF i1,
      of "[Obstruct 7 None None, Obstruct 8 None None, Clear 7, Clear 8]"]
  have r: "snd (chan_run \<lparr>f_obstructions = None, f_monitors = Some [(1, 2)]\<rparr>
          [Obstruct 7 None None, Obstruct 8 None None, Clear 7, Clear 8]) = [1, 2]"
    by (simp add: f_obstruct_def f_clear_def f_obstructed_def monitors_of_def dict_truthy_def
        Let_def)
  from monitors_once_per_transition[OF i2, of "[]" 8 None None] o
  have s: "snd (f_obstruct \<lparr>f_obstructions = Some [(7, None, None)], f_monitors = Some [(1, 2)]\<rparr>
          8 None None) = []"
    by simp
  from i1 r o s show ?thesis by simp
qed

subsection \<open>KOutput overflow obstruction\<close>

text \<open>
  C4, as stated, fails on an idle channel: \<open>process\<close> of 18 buffers on a fresh KOutput
  starts the transfer of the first and leaves 17 in the queue, above the limit of 16, and
  the channel is not obstructed.
\<close>

theorem ko_idle_overflow_counterexample:
  "ko_process (ko_init 1) (replicate 18 [0]) =
     Inr ((ko_init 1)\<lparr>ko_queue := replicate 17 [0], transit_resource := Some [0],
                         k_transferred := Some 0\<rparr>, []) \<and>
   ko_limit ((ko_init 1)\<lparr>ko_queue := replicate 17 [0], transit_resource := Some [0],
                          k_transferred := Some 0\<rparr>)
     < length (ko_queue ((ko_init 1)\<lparr>ko_queue := replicate 17 [0],
                          transit_resource := Some [0], k_transferred := Some 0\<rparr>)) \<and>
   \<not> f_obstructed ((ko_init 1)\<lparr>ko_queue := replicate 17 [0], transit_resource := Some [0],
                           k_transferred := Some 0\<rparr>)"
  by (simp add: ko_process_def ko_init_def ko_transition_def f_obstructed_def numeral_eq_Suc)

text \<open>
  C4, amended. When a transfer is in flight (\<open>k_transferred\<close> is not \<open>None\<close>),
  \<open>process(events)\<close> extends the queue and, exactly when the queue then exceeds \<open>ko_limit\<close>,
  obstructs the channel under its own key with \<open>Condition(self, ('ko_overflow',))\<close>;
  otherwise the obstructions are untouched. When nothing is in flight, \<open>process\<close> is the
  queue extension followed by \<open>k_transition\<close>. \<open>k_transition\<close> removes the channel's own
  obstruction (and no other) exactly when it finds the queue empty; with a non-empty queue
  it leaves the obstructions as they are.
\<close>

theorem ko_overflow_obstruction:
  "(k_transferred k \<noteq> None \<longrightarrow>
      (\<exists>k' calls. ko_process k ev = Inr (k', calls) \<and> ko_queue k' = ko_queue k @ ev \<and>
         ko_limit k' = ko_limit k \<and>
         (if ko_overflow k'
          then f_obstructed k' \<and>
               obstruction_of k' (ko_self k) =
                 Some (None, Some (Condition (ko_self k) [''ko_overflow''] None))
          else f_obstructions k' = f_obstructions k))) \<and>
   (k_transferred k = None \<longrightarrow>
      ko_process k ev = ko_transition (k\<lparr>ko_queue := ko_queue k @ ev\<rparr>)) \<and>
   (\<forall>k' calls. ko_transition k = Inr (k', calls) \<longrightarrow>
      (if ko_queue k = []
       then ko_self k \<notin> obstruction_keys k' \<and>
            (\<forall>j. j \<noteq> ko_self k \<longrightarrow> obstruction_of k' j = obstruction_of k j)
       else f_obstructions k' = f_obstructions k))"
proof (intro conjI impI allI)
  assume "k_transferred k \<noteq> None"
  then show "\<exists>k' calls. ko_process k ev = Inr (k', calls) \<and> ko_queue k' = ko_queue k @ ev \<and>
         ko_limit k' = ko_limit k \<and>
         (if ko_overflow k'
          then f_obstructed k' \<and>
               obstruction_of k' (ko_self k) =
                 Some (None, Some (Condition (ko_self k) [''ko_overflow''] None))
          else f_obstructions k' = f_obstructions k)"
    using f_obstruct_entry[of "k\<lparr>ko_queue := ko_queue k @ ev\<rparr>" "ko_self k" None
        "Some (Condition (ko_self k) [''ko_overflow''] None)"]
    by (cases "f_obstruct (k\<lparr>ko_queue := ko_queue k @ ev\<rparr>) (ko_self k) None
        (Some (Condition (ko_self k) [''ko_overflow''] None))")
       (auto simp: ko_process_def Let_def ko_overflow_def f_obstruct_def)
next
  assume "k_transferred k = None"
  then show "ko_process k ev = ko_transition (k\<lparr>ko_queue := ko_queue k @ ev\<rparr>)"
    by (simp add: ko_process_def Let_def)
next
  fix k' calls
  assume t: "ko_transition k = Inr (k', calls)"
  show "if ko_queue k = []
       then ko_self k \<notin> obstruction_keys k' \<and>
            (\<forall>j. j \<noteq> ko_self k \<longrightarrow> obstruction_of k' j = obstruction_of k j)
       else f_obstructions k' = f_obstructions k"
  proof (cases "ko_queue k")
    case Nil
    obtain k1 cl cs where fc: "f_clear (k\<lparr>k_transferred := None\<rparr>) (ko_self k) = (k1, cl, cs)"
      by (cases "f_clear (k\<lparr>k_transferred := None\<rparr>) (ko_self k)") auto
    have a: "ko_self k \<notin> obstruction_keys k1"
      using f_clear_removes[of "ko_self k" "k\<lparr>k_transferred := None\<rparr>"] fc by simp
    have b: "\<And>j. j \<noteq> ko_self k \<Longrightarrow> obstruction_of k1 j = obstruction_of k j"
      using f_clear_others[of _ "ko_self k" "k\<lparr>k_transferred := None\<rparr>"] fc
      by (simp add: obstruction_of_def)
    from t Nil fc have "f_obstructions k' = f_obstructions k1"
      by (auto simp: ko_transition_def split: if_splits)
    with a b Nil show ?thesis by (simp add: obstruction_keys_def obstruction_of_def)
  next
    case (Cons nb rest)
    with t show ?thesis by (auto simp: ko_transition_def)
  qed
qed

theorem ko_overflow_obstruction_witness:
  "k_transferred ((ko_init 1)\<lparr>k_transferred := Some 0, ko_queue := replicate 16 [0]\<rparr>) \<noteq> None \<and>
   (\<exists>k' calls. ko_process ((ko_init 1)\<lparr>k_transferred := Some 0, ko_queue := replicate 16 [0]\<rparr>) [[1]]
        = Inr (k', calls) \<and> ko_overflow k' \<and> f_obstructed k' \<and>
        obstruction_of k' 1 = Some (None, Some (Condition 1 [''ko_overflow''] None))) \<and>
   k_transferred (ko_init 1) = None \<and>
   ko_process (ko_init 1) [[1]] = ko_transition ((ko_init 1)\<lparr>ko_queue := [[1]]\<rparr>) \<and>
   (\<exists>k' calls. ko_transition ((ko_init 1)\<lparr>k_transferred := Some 0,
        f_obstructions := Some [(1, None, None)]\<rparr>) = Inr (k', calls) \<and>
      1 \<notin> obstruction_keys k')"
proof -
  let ?b = "(ko_init 1)\<lparr>k_transferred := Some 0, ko_queue := replicate 16 [0]\<rparr>"
  let ?e = "(ko_init 1)\<lparr>k_transferred := Some 0, f_obstructions := Some [(1, None, None)]\<rparr>"
  have h1: "k_transferred ?b \<noteq> None" by simp
  have h2: "k_transferred (ko_init 1) = None" by (simp add: ko_init_def)
  from ko_overflow_obstruction[of ?b "[[1]]"] h1
  have a: "\<exists>k' calls. ko_process ?b [[1]] = Inr (k', calls) \<and> ko_overflow k' \<and> f_obstructed k' \<and>
        obstruction_of k' 1 = Some (None, Some (Condition 1 [''ko_overflow''] None))"
    by (auto simp: ko_overflow_def ko_init_def split: if_splits)
  from ko_overflow_obstruction[of "ko_init 1" "[[1]]"] h2
  have b: "ko_process (ko_init 1) [[1]] = ko_transition ((ko_init 1)\<lparr>ko_queue := [[1]]\<rparr>)"
    by (simp add: ko_init_def)
  have t: "ko_transition ?e = Inr (?e\<lparr>k_transferred := None, f_obstructions := None\<rparr>, [])"
    by (simp add: ko_transition_def ko_init_def f_clear_def dict_truthy_def)
  from ko_overflow_obstruction[of ?e "[]"] t
  have c: "\<exists>k' calls. ko_transition ?e = Inr (k', calls) \<and> 1 \<notin> obstruction_keys k'"
    by (simp add: ko_init_def)
  from h1 a h2 b c show ?thesis by blast
qed

subsection \<open>Ports: descriptors and the stored state\<close>

lemma sets_getitem_fds: "open_fds (state_of (sets_getitem p slot)) = open_fds p"
  by (simp add: sets_getitem_def split: pyval.splits option.splits)

lemma sets_put_fds: "open_fds (sets_put p slot sd) = open_fds p"
  by (simp add: sets_put_def split: pyval.splits)

lemma bind_void_fds: "open_fds (state_of (bind_void p xs)) = open_fds p"
  by (induction p xs rule: bind_void.induct) (auto split: option.splits fs_type.splits)

lemma bindings_fds: "set (open_fds p) \<subseteq> set (open_fds (snd (bindings p es)))"
proof (induction es arbitrary: p)
  case Nil
  then show ?case by simp
next
  case (Cons e es)
  have "set (open_fds (p\<lparr>open_fds := open_fds p @ [next_fd p], next_fd := Suc (next_fd p)\<rparr>))
      \<subseteq> set (open_fds (snd (bindings (p\<lparr>open_fds := open_fds p @ [next_fd p], next_fd := Suc (next_fd p)\<rparr>) es)))"
    by (rule Cons.IH)
  then show ?case by (auto simp: Let_def split: prod.splits)
qed

lemma ports_bind_fds: "set (open_fds p) \<subseteq> set (open_fds (state_of (ports_bind p slot es)))"
proof -
  show ?thesis
  proof (cases "sets_getitem p slot")
    case (Raised e p1)
    then show ?thesis using sets_getitem_fds[of p slot] by (simp add: ports_bind_def)
  next
    case (Returned sd p1)
    then have a: "open_fds p1 = open_fds p" using sets_getitem_fds[of p slot] by simp
    show ?thesis
    proof (cases "bind_void p1 es")
      case (Raised e p2)
      then show ?thesis using Returned a bind_void_fds[of p1 es] by (simp add: ports_bind_def)
    next
      case r2: (Returned u p2)
      then have b: "open_fds p2 = open_fds p" using a bind_void_fds[of p1 es] by simp
      obtain fds p3 where c: "bindings p2 es = (fds, p3)" by (cases "bindings p2 es") auto
      with bindings_fds[of p2 es] b have "set (open_fds p) \<subseteq> set (open_fds p3)" by simp
      then show ?thesis using Returned r2 c by (simp add: ports_bind_def sets_put_fds)
    qed
  qed
qed

lemma close_set_fds: "open_fds (state_of (ports_close p slot [ASet r])) = open_fds p"
proof (cases "sets_getitem p slot")
  case (Raised e p1)
  then show ?thesis using sets_getitem_fds[of p slot] by (simp add: ports_close_def)
next
  case (Returned sd p1)
  then show ?thesis using sets_getitem_fds[of p slot]
    by (simp add: ports_close_def sets_put_fds)
qed

text \<open>
  C7. \<open>Ports.replace\<close> binds the endpoints that are new to the slot, but it never closes a
  descriptor: every descriptor open before the call is open after it, whether the call
  returns or raises. Replacing the endpoint of a slot by another one binds the new endpoint
  and then raises TypeError in \<open>close\<close> (the set \<open>removed\<close> is passed as one endpoint and
  is unhashable); the old endpoint stays in the slot and its descriptor 5 stays open.
\<close>

theorem replace_never_closes:
  "set (open_fds p) \<subseteq> set (open_fds (state_of (ports_replace p slot endpoints))) \<and>
   ports_replace ports_example ''http'' [Endpoint ''ip4'' ''127.0.0.1'' 8080] =
     Raised TypeError
       \<lparr>sets = PSets [(''http'', [(Endpoint ''ip4'' ''127.0.0.1'' 80, 5),
                                  (Endpoint ''ip4'' ''127.0.0.1'' 8080, 6)])],
        users = [], open_fds = [5, 6], next_fd = 7, fs = [], files = []\<rparr>"
proof
  show "ports_replace ports_example ''http'' [Endpoint ''ip4'' ''127.0.0.1'' 8080] =
     Raised TypeError
       \<lparr>sets = PSets [(''http'', [(Endpoint ''ip4'' ''127.0.0.1'' 80, 5),
                                  (Endpoint ''ip4'' ''127.0.0.1'' 8080, 6)])],
        users = [], open_fds = [5, 6], next_fd = 7, fs = [], files = []\<rparr>"
    by (simp add: ports_replace_def ports_example_def sets_getitem_def ports_bind_def
        ports_close_def sets_put_def Let_def)
  show "set (open_fds p) \<subseteq> set (open_fds (state_of (ports_replace p slot endpoints)))"
  proof (cases "sets_getitem p slot")
  case (Raised e p1)
  then show ?thesis using sets_getitem_fds[of p slot] by (simp add: ports_replace_def)
next
  case (Returned sd p1)
  then have a: "open_fds p1 = open_fds p" using sets_getitem_fds[of p slot] by simp
  let ?delta = "filter (\<lambda>e. e \<notin> set (map fst sd)) (remdups endpoints)"
  show ?thesis
  proof (cases "ports_bind p1 slot ?delta")
    case (Raised e p2)
    then show ?thesis using Returned a ports_bind_fds[of p1 slot ?delta]
      by (simp add: ports_replace_def Let_def)
  next
    case r2: (Returned u p2)
    then have b: "set (open_fds p) \<subseteq> set (open_fds p2)"
      using a ports_bind_fds[of p1 slot ?delta] by simp
    let ?removed = "filter (\<lambda>e. e \<notin> set (remdups endpoints)) (map fst sd @ ?delta)"
    have "open_fds (state_of (ports_close p2 slot [ASet ?removed])) = open_fds p2"
      by (rule close_set_fds)
    then show ?thesis using Returned r2 b
      by (cases "ports_close p2 slot [ASet ?removed]") (simp_all add: ports_replace_def Let_def)
  qed
qed
qed


subsection \<open>ProcessManager restart\<close>

text \<open>
  C8. When a fork's exit is received and the manager is terminating, \<open>xact_exit\<close> changes
  nothing: no child is forked. When the manager is not terminating and the exited
  Subprocess holds (pid, fid), the exit status is recorded under \<open>fid\<close> and, if \<open>fid\<close> is
  at most the concurrency, exactly one child is forked, with \<open>SECTORS\<close> set to \<open>str(fid)\<close>
  in its environment, and recorded under the same fork id; if \<open>fid\<close> exceeds the
  concurrency, no child is forked.
\<close>

theorem xact_exit_restarts_same_fid:
  "(pm_terminating m \<longrightarrow> xact_exit m sub = Inr m) \<and>
   (\<not> pm_terminating m \<and> sp_processes sub = (pid, fid) # rest \<and>
      map_of (ctl_fork_id_to_subprocess m) fid \<noteq> None \<longrightarrow>
      (\<exists>m'. xact_exit m sub = Inr m' \<and>
         forked m' = forked m @
           (if fid \<le> ctl_concurrency m
            then [\<lparr>child_pid = next_pid m,
                   child_environ = AList.update ''SECTORS'' (py_str fid) (environ m)\<rparr>]
            else []) \<and>
         map_of (ctl_fork_id_to_subprocess m') fid =
           (if fid \<le> ctl_concurrency m
            then Some \<lparr>sp_processes = [(next_pid m, fid)], sp_exit_status = []\<rparr>
            else None) \<and>
         map_of (ctl_last_exit_status m') fid = Some (pid, sp_only sub) \<and>
         ctl_concurrency m' = ctl_concurrency m \<and> pm_terminating m' = pm_terminating m))"
  by (auto simp: xact_exit_def ctl_fork_def ctl_forked_def Let_def update_conv' delete_conv')

lemma pm_example_state:
  "\<not> pm_terminating pm_example \<and> ctl_concurrency pm_example = 3 \<and> next_pid pm_example = 103 \<and>
   environ pm_example = [(''PATH'', ''/bin'')] \<and>
   map_of (ctl_fork_id_to_subprocess pm_example) 2 =
     Some \<lparr>sp_processes = [(101, 2)], sp_exit_status = []\<rparr>"
  by (simp add: pm_example_def pm_actuate_def ctl_fork_def Let_def upto.simps)

lemma py_str_2: "py_str 2 = ''2''"
  by (simp add: py_str_def str_nat.simps digit_char_def)

theorem xact_exit_restarts_same_fid_witness:
  "\<not> pm_terminating pm_example \<and>
   map_of (ctl_fork_id_to_subprocess pm_example) 2 \<noteq> None \<and>
   (\<exists>m'. xact_exit pm_example \<lparr>sp_processes = [(101, 2)], sp_exit_status = [(101, 9)]\<rparr> = Inr m' \<and>
      forked m' = forked pm_example @
        [\<lparr>child_pid = 103, child_environ = [(''PATH'', ''/bin''), (''SECTORS'', ''2'')]\<rparr>] \<and>
      map_of (ctl_last_exit_status m') 2 = Some (101, Some 9)) \<and>
   pm_terminating (pm_example\<lparr>pm_terminating := True\<rparr>) \<and>
   xact_exit (pm_example\<lparr>pm_terminating := True\<rparr>)
       \<lparr>sp_processes = [(101, 2)], sp_exit_status = [(101, 9)]\<rparr> =
     Inr (pm_example\<lparr>pm_terminating := True\<rparr>)"
proof -
  let ?sub = "\<lparr>sp_processes = [(101, 2)], sp_exit_status = [(101, 9)]\<rparr>"
  note st = pm_example_state
  have a: "\<exists>m'. xact_exit pm_example ?sub = Inr m' \<and>
      forked m' = forked pm_example @
        [\<lparr>child_pid = 103, child_environ = [(''PATH'', ''/bin''), (''SECTORS'', ''2'')]\<rparr>] \<and>
      map_of (ctl_last_exit_status m') 2 = Some (101, Some 9)"
    using xact_exit_restarts_same_fid[of pm_example ?sub 101 2 "[]"] st
    by (auto simp: py_str_2 sp_only_def)
  have b: "xact_exit (pm_example\<lparr>pm_terminating := True\<rparr>) ?sub =
     Inr (pm_example\<lparr>pm_terminating := True\<rparr>)"
    using xact_exit_restarts_same_fid[of "pm_example\<lparr>pm_terminating := True\<rparr>" ?sub 101 2 "[]"]
    by simp
  from st a b show ?thesis by simp
qed

subsection \<open>Unit: delete and the hierarchy\<close>

lemma dicts_allocated_iff:
  "dicts_allocated h n \<longleftrightarrow> (\<forall>q < n. \<forall>x r. (x, r) \<in> set (h q) \<longrightarrow> r < n)"
  by (fastforce simp: dicts_allocated_def list_all_iff)

lemma map_of_allocated:
  "dicts_allocated h n \<Longrightarrow> p < n \<Longrightarrow> map_of (h p) x = Some q \<Longrightarrow> q < n"
  by (auto simp: dicts_allocated_iff dest: map_of_SomeD)

lemma allocated_extend:
  assumes "dicts_allocated h n" "p < n"
  shows "dicts_allocated (h(p := h p @ [(x, n)], n := [])) (Suc n)"
  using assms by (auto simp: dicts_allocated_iff less_Suc_eq)

lemma place_walk_preserves:
  "dicts_allocated h n \<Longrightarrow> p < n \<Longrightarrow> place_walk h n p path = (h', n') \<Longrightarrow>
     n \<le> n' \<and> dicts_allocated h' n' \<and>
     (\<forall>r < n. \<forall>k v. map_of (h r) k = Some v \<longrightarrow> map_of (h' r) k = Some v)"
proof (induction h n p path arbitrary: h' n' rule: place_walk.induct)
  case (1 h n p)
  then show ?case by simp
next
  case (2 h n p x xs)
  show ?case
  proof (cases "map_of (h p) x")
    case None
    let ?h = "h(p := h p @ [(x, n)], n := [])"
    have a: "dicts_allocated ?h (Suc n)" using "2.prems" by (simp add: allocated_extend)
    have w: "place_walk ?h (Suc n) p xs = (h', n')" using "2.prems" None by simp
    from "2.IH"(1)[OF None a _ w] "2.prems"(2)
    have ih: "Suc n \<le> n' \<and> dicts_allocated h' n' \<and>
      (\<forall>r < Suc n. \<forall>k v. map_of (?h r) k = Some v \<longrightarrow> map_of (h' r) k = Some v)" by simp
    have "map_of (h' r) k = Some v" if "r < n" "map_of (h r) k = Some v" for r k v
    proof -
      have "map_of (?h r) k = Some v" using that by (auto simp: map_add_Some_iff)
      with ih that show ?thesis by (simp add: less_Suc_eq)
    qed
    with ih show ?thesis by auto
  next
    case (Some q)
    have q: "q < n" using "2.prems" Some by (auto dest: map_of_allocated)
    have w: "place_walk h n q xs = (h', n')" using "2.prems" Some by simp
    from "2.IH"(2)[OF Some "2.prems"(1) q w] show ?thesis .
  qed
qed

lemma place_walk_lists:
  "dicts_allocated h n \<Longrightarrow> p < n \<Longrightarrow> listdir_walk h p parent = Some ns \<Longrightarrow>
   place_walk h n p (parent @ [name]) = (h', n') \<Longrightarrow>
   (\<exists>ns'. listdir_walk h' p parent = Some ns' \<and> name \<in> set ns')"
proof (induction parent arbitrary: p ns)
  case Nil
  show ?case
  proof (cases "map_of (h p) name")
    case None
    with Nil show ?thesis by auto
  next
    case (Some q)
    with Nil have "h' = h" by simp
    moreover have "name \<in> fst ` set (h p)" using Some by (auto dest: map_of_SomeD intro: rev_image_eqI)
    ultimately show ?thesis by simp
  qed
next
  case (Cons x xs)
  from Cons.prems(3) obtain q where q: "map_of (h p) x = Some q" and l: "listdir_walk h q xs = Some ns"
    by (auto split: option.splits)
  have qn: "q < n" using Cons.prems q by (auto dest: map_of_allocated)
  have w: "place_walk h n q (xs @ [name]) = (h', n')" using Cons.prems(4) q by simp
  from Cons.IH[OF Cons.prems(1) qn l w] obtain ns' where
    r: "listdir_walk h' q xs = Some ns'" "name \<in> set ns'" by blast
  have "place_walk h n p ((x # xs) @ [name]) = (h', n')" using Cons.prems(4) .
  from place_walk_preserves[OF Cons.prems(1,2) this] q Cons.prems(2)
  have "map_of (h' p) x = Some q" by blast
  with r show ?case by simp
qed

lemma delete_frame:
  assumes "delete u addr = Inr u'"
  shows "dicts u' = dicts u \<and> u_hierarchy u' = u_hierarchy u \<and> next_dict u' = next_dict u \<and>
     (\<forall>a. listdir u' a = listdir u a) \<and>
     map_of (u_index u') addr = None \<and>
     (\<forall>a. a \<noteq> addr \<longrightarrow> map_of (u_index u') a = map_of (u_index u) a) \<and>
     (\<exists>obj. map_of (u_index u) addr = Some obj \<and> map_of (u_reverse_index u') obj = None \<and>
        (\<forall>ob. ob \<noteq> obj \<longrightarrow> map_of (u_reverse_index u') ob = map_of (u_reverse_index u) ob))"
  using assms
  by (auto simp: delete_def listdir_def delete_conv' split: option.splits)

lemma case_snoc:
  "(case xs @ [y] of [] \<Rightarrow> a | d0 # ds \<Rightarrow> f d0 ds) = f (hd (xs @ [y])) (tl (xs @ [y]))"
  by (cases xs) auto

lemma place_then_listed:
  assumes wf: "unit_wf u" and l: "listdir u parent = Some ns"
    and nf: "hd (parent @ [name]) \<noteq> ''faults''"
  shows "\<exists>u1 ns'. place u obj (parent @ [name]) = Inr u1 \<and>
     map_of (u_index u1) (parent @ [name]) = Some obj \<and>
     map_of (u_reverse_index u1) obj = Some (parent @ [name]) \<and>
     listdir u1 parent = Some ns' \<and> name \<in> set ns'"
proof -
  obtain h n where w: "place_walk (dicts u) (next_dict u) (u_hierarchy u) (parent @ [name]) = (h, n)"
    by (cases "place_walk (dicts u) (next_dict u) (u_hierarchy u) (parent @ [name])") auto
  from wf have a: "dicts_allocated (dicts u) (next_dict u)" and r: "u_hierarchy u < next_dict u"
    by (simp_all add: unit_wf_def)
  from l have l': "listdir_walk (dicts u) (u_hierarchy u) parent = Some ns"
    by (simp add: listdir_def)
  from place_walk_lists[OF a r l' w] obtain ns' where
    ns': "listdir_walk h (u_hierarchy u) parent = Some ns'" "name \<in> set ns'" by blast
  let ?u1 = "u\<lparr>u_index := AList.update (parent @ [name]) obj (u_index u), dicts := h, next_dict := n,
       u_reverse_index := AList.update obj (parent @ [name]) (u_reverse_index u)\<rparr>"
  have "place u obj (parent @ [name]) = Inr ?u1"
    using w nf by (simp add: place_def Let_def case_snoc)
  moreover have "listdir ?u1 parent = Some ns'" using ns' by (simp add: listdir_def)
  ultimately show ?thesis using ns'(2) by (simp add: update_conv')
qed

text \<open>
  C10. \<open>Unit.delete(*address)\<close>, when it succeeds, removes the address from \<open>u_index\<close>
  and the object found there from \<open>u_reverse_index\<close>, and nothing else: the hierarchy (the
  root and every dict of the store) is unchanged, so \<open>listdir\<close> of every address returns
  what it returned before. In particular, after placing an object under an existing
  directory (outside \<open>faults\<close>) and deleting it again, the address is gone from the index
  and the reverse index while \<open>listdir\<close> of the parent still lists the name.
\<close>

theorem delete_keeps_hierarchy:
  "(\<forall>u'. delete u addr = Inr u' \<longrightarrow>
      dicts u' = dicts u \<and> u_hierarchy u' = u_hierarchy u \<and>
      (\<forall>a. listdir u' a = listdir u a) \<and>
      map_of (u_index u') addr = None \<and>
      (\<forall>a. a \<noteq> addr \<longrightarrow> map_of (u_index u') a = map_of (u_index u) a) \<and>
      (\<exists>obj. map_of (u_index u) addr = Some obj \<and> map_of (u_reverse_index u') obj = None \<and>
         (\<forall>ob. ob \<noteq> obj \<longrightarrow> map_of (u_reverse_index u') ob = map_of (u_reverse_index u) ob))) \<and>
   (unit_wf u \<and> listdir u parent = Some ns \<and> hd (parent @ [name]) \<noteq> ''faults'' \<longrightarrow>
      (\<exists>u1 u2 ns'. place u obj (parent @ [name]) = Inr u1 \<and>
         delete u1 (parent @ [name]) = Inr u2 \<and>
         map_of (u_index u2) (parent @ [name]) = None \<and>
         map_of (u_reverse_index u2) obj = None \<and>
         listdir u2 parent = Some ns' \<and> name \<in> set ns'))"
proof (rule conjI)
  show "\<forall>u'. delete u addr = Inr u' \<longrightarrow>
      dicts u' = dicts u \<and> u_hierarchy u' = u_hierarchy u \<and>
      (\<forall>a. listdir u' a = listdir u a) \<and>
      map_of (u_index u') addr = None \<and>
      (\<forall>a. a \<noteq> addr \<longrightarrow> map_of (u_index u') a = map_of (u_index u) a) \<and>
      (\<exists>obj. map_of (u_index u) addr = Some obj \<and> map_of (u_reverse_index u') obj = None \<and>
         (\<forall>ob. ob \<noteq> obj \<longrightarrow> map_of (u_reverse_index u') ob = map_of (u_reverse_index u) ob))"
    using delete_frame[of u addr] by blast
  show "unit_wf u \<and> listdir u parent = Some ns \<and> hd (parent @ [name]) \<noteq> ''faults'' \<longrightarrow>
      (\<exists>u1 u2 ns'. place u obj (parent @ [name]) = Inr u1 \<and>
         delete u1 (parent @ [name]) = Inr u2 \<and>
         map_of (u_index u2) (parent @ [name]) = None \<and>
         map_of (u_reverse_index u2) obj = None \<and>
         listdir u2 parent = Some ns' \<and> name \<in> set ns')"
  proof
    assume h: "unit_wf u \<and> listdir u parent = Some ns \<and> hd (parent @ [name]) \<noteq> ''faults''"
    then obtain u1 ns' where p: "place u obj (parent @ [name]) = Inr u1"
      and i: "map_of (u_index u1) (parent @ [name]) = Some obj"
      and r: "map_of (u_reverse_index u1) obj = Some (parent @ [name])"
      and l: "listdir u1 parent = Some ns'" "name \<in> set ns'"
      using place_then_listed[of u parent ns name obj] by blast
    let ?u2 = "u1\<lparr>u_reverse_index := AList.delete obj (u_reverse_index u1),
        u_index := AList.delete (parent @ [name]) (u_index u1)\<rparr>"
    have d: "delete u1 (parent @ [name]) = Inr ?u2" using i r by (simp add: delete_def)
    from delete_frame[OF d] l
    have "map_of (u_index ?u2) (parent @ [name]) = None \<and>
       map_of (u_reverse_index ?u2) obj = None \<and> listdir ?u2 parent = Some ns'"
      using i by auto
    with p d l(2) show "\<exists>u1 u2 ns'. place u obj (parent @ [name]) = Inr u1 \<and>
         delete u1 (parent @ [name]) = Inr u2 \<and>
         map_of (u_index u2) (parent @ [name]) = None \<and>
         map_of (u_reverse_index u2) obj = None \<and>
         listdir u2 parent = Some ns' \<and> name \<in> set ns'"
      by blast
  qed
qed

lemma unit_init_wf: "unit_wf unit_init"
  by (auto simp: unit_wf_def unit_init_def dicts_allocated_def list_all_iff)

theorem delete_keeps_hierarchy_witness:
  "unit_wf unit_init \<and> listdir unit_init [''bin''] = Some [] \<and>
   hd ([''bin''] @ [''worker'']) \<noteq> ''faults'' \<and>
   (\<exists>u1 u2. place unit_init (Some 7) [''bin'', ''worker''] = Inr u1 \<and>
      delete u1 [''bin'', ''worker''] = Inr u2 \<and>
      map_of (u_index u2) [''bin'', ''worker''] = None \<and>
      listdir u2 [''bin''] = Some [''worker''] \<and>
      listdir u2 [''bin''] = listdir u1 [''bin''])"
proof -
  have l: "listdir unit_init [''bin''] = Some []"
    by (simp add: listdir_def unit_init_def)
  have n: "hd ([''bin''] @ [''worker'']) \<noteq> ''faults''" by simp
  from delete_keeps_hierarchy[of unit_init "[]" "[''bin'']" "[]" "''worker''" "Some 7"]
    unit_init_wf l n
  obtain u1 u2 ns' where p: "place unit_init (Some 7) [''bin'', ''worker''] = Inr u1"
    and d: "delete u1 [''bin'', ''worker''] = Inr u2"
    and i: "map_of (u_index u2) [''bin'', ''worker''] = None"
    and ls: "listdir u2 [''bin''] = Some ns'" by auto
  from delete_keeps_hierarchy[of u1 "[''bin'', ''worker'']"] d
  have f: "listdir u2 [''bin''] = listdir u1 [''bin'']" by blast
  have "listdir u1 [''bin''] = Some [''worker'']"
    using p by (auto simp: place_def unit_init_def listdir_def Let_def)
  with p d i f unit_init_wf l n show ?thesis by auto
qed

subsection \<open>Transports: the deadlock safeguard\<close>

lemma pop_layer_no_deadlock: "pop_layer w t \<noteq> Inl (PyException m)"
  by (simp add: pop_layer_def Let_def)

lemma pop_loop_no_deadlock: "pop_loop L w st t \<noteq> Inl (PyException m)"
  by (induction L w st t rule: pop_loop.induct) (auto simp: pop_layer_no_deadlock split: sum.splits)

lemma tear_down_no_deadlock: "tear_down L w t \<noteq> Inl (PyException m)"
  by (auto simp: tear_down_def Let_def pop_loop_no_deadlock split: sum.splits)

lemma tf_process_no_deadlock: "tf_process n L w ev t \<noteq> Inl (PyException m)"
proof (induction n arbitrary: w ev t)
  case 0
  then show ?case by simp
next
  case (Suc n)
  show ?case
    by (auto simp: Let_def polarity_def Suc.IH tear_down_no_deadlock
        split: prod.splits sum.splits)
qed

text \<open>
  C2. \<open>Transports.process\<close> never raises the transport-stack-deadlock exception: the
  guard reads \<open>self.polarity\<close>, the class attribute 0, where the instance's direction is
  \<open>self.tf_polarity\<close>, so \<open>self.polarity == -1\<close> is false on every instance. On the
  output side of a pair whose layer still reports opposite work after the drain pass into
  the input side, with the input side terminating, \<open>process\<close> returns normally after
  emitting on both sides.
\<close>

theorem deadlock_never_raised:
  "tf_process n L w ev t \<noteq> Inl (PyException ''transport stack deadlock'') \<and>
   still_opposite_work stuck_layer Output stuck_pair = 1 \<and>
   s_terminating (side_of Input stuck_pair) \<and>
   tf_process 2 stuck_layer Output [1, 2] stuck_pair =
     Inr (stuck_pair\<lparr>actions := [Emitted Output [1, 2], Emitted Input []]\<rparr>)"
proof (intro conjI)
  show "tf_process n L w ev t \<noteq> Inl (PyException ''transport stack deadlock'')"
    by (rule tf_process_no_deadlock)
  show "still_opposite_work stuck_layer Output stuck_pair = 1"
    by (simp add: still_opposite_work_def stuck_layer_def stuck_pair_def)
  show "s_terminating (side_of Input stuck_pair)"
    by (simp add: stuck_pair_def)
  have two: "(2::nat) = Suc (Suc 0)" by simp
  show "tf_process 2 stuck_layer Output [1, 2] stuck_pair =
     Inr (stuck_pair\<lparr>actions := [Emitted Output [1, 2], Emitted Input []]\<rparr>)"
    unfolding two
    by (simp add: stuck_layer_def stuck_pair_def tf_emit_def tear_down_def polarity_def
        still_opposite_work_def Let_def fun_upd_idem)
qed

subsection \<open>Catenation: order of the downstream events\<close>

lemmas cat_defs = cat_init_def cat_reserve_def cat_connect_def cat_process_def cat_transfer_def
  cat_f_terminate_def cat_terminate_def cat_transition_def cat_add_def cat_flush_def cat_drain_def
  cat_observed_def Let_def

lemma fan_in_observed:
  "cat_observed (cat_run cat_init fan_in_trace) =
     [Initiate 1, Transfer 1 [10, 11], Terminate 1, Initiate 2, Transfer 2 [20, 21], Terminate 2]"
  by (simp add: fan_in_trace_def cat_defs)

lemma race_observed:
  "cat_observed (cat_run cat_init race_trace) =
     [Initiate 1, Transfer 1 [10], Terminate 1, Transfer 2 [21], Initiate 2, Transfer 2 [20],
      Terminate 2]"
  by (simp add: race_trace_def cat_defs)

text \<open>
  C1. On scenario 1 of the specification the downstream receives the layers in reservation
  order. But \<open>cat_transition\<close> makes the next layer head of line at once and only enqueues
  \<open>cat_drain\<close>: when the next layer's upstream delivers between the transition and the
  drain task, \<open>cat_transfer\<close> takes it for the head of line and appends its transfer
  directly. The downstream then receives \<open>transfer\<close> of layer 2 before \<open>initiate\<close> of
  layer 2, and layer 2's payloads out of the order its upstream produced them.
\<close>

theorem catenation_interleaves_after_transition:
  "cat_observed (cat_run cat_init race_trace) =
     [Initiate 1, Transfer 1 [10], Terminate 1, Transfer 2 [21], Initiate 2, Transfer 2 [20],
      Terminate 2] \<and>
   \<not> sequenced [1, 2] False (cat_observed (cat_run cat_init race_trace)) \<and>
   transfers_of 2 (cat_observed (cat_run cat_init race_trace)) = [[21], [20]] \<and>
   cat_observed (cat_run cat_init fan_in_trace) =
     [Initiate 1, Transfer 1 [10, 11], Terminate 1, Initiate 2, Transfer 2 [20, 21], Terminate 2] \<and>
   sequenced [1, 2] False (cat_observed (cat_run cat_init fan_in_trace))"
  by (simp add: race_observed fan_in_observed)

subsection \<open>At-exit callbacks and interrupts\<close>

text \<open>
  \<open>interrupt\<close> by itself, on a processor or through a Sector, enqueues nothing, invokes
  nothing and leaves every \<open>terminated\<close> flag as it was.
\<close>

lemma processor_interrupt_frame:
  "tasks (processor_interrupt w p by) = tasks w \<and>
   invoked (processor_interrupt w p by) = invoked w \<and>
   terminated (procs (processor_interrupt w p by) q) = terminated (procs w q) \<and>
   exit_event_connections (procs (processor_interrupt w p by) q) = exit_event_connections (procs w q)"
  by (simp add: processor_interrupt_def proc_update_def)

lemma interrupt_members_frame:
  assumes "\<And>w x w'. interrupt n w x None = Some w' \<Longrightarrow>
     tasks w' = tasks w \<and> invoked w' = invoked w \<and>
     (\<forall>q. terminated (procs w' q) = terminated (procs w q))"
  shows "fold (\<lambda>x acc. case acc of None \<Rightarrow> None | Some w' \<Rightarrow> interrupt n w' x None) xs (Some w0)
       = Some w1 \<Longrightarrow>
     tasks w1 = tasks w0 \<and> invoked w1 = invoked w0 \<and>
     (\<forall>q. terminated (procs w1 q) = terminated (procs w0 q))"
proof (induction xs arbitrary: w0)
  case Nil
  then show ?case by simp
next
  case (Cons x xs)
  show ?case
  proof (cases "interrupt n w0 x None")
    case None
    have "fold (\<lambda>x acc. case acc of None \<Rightarrow> None | Some w' \<Rightarrow> interrupt n w' x None) xs None = None"
      by (induction xs) auto
    with Cons.prems None show ?thesis by simp
  next
    case (Some w')
    with Cons.prems have "fold (\<lambda>x acc. case acc of None \<Rightarrow> None | Some w' \<Rightarrow> interrupt n w' x None)
        xs (Some w') = Some w1" by simp
    from Cons.IH[OF this] assms[OF Some] show ?thesis by simp
  qed
qed

lemma interrupt_frame:
  "interrupt n w p by = Some w' \<Longrightarrow>
     tasks w' = tasks w \<and> invoked w' = invoked w \<and>
     (\<forall>q. terminated (procs w' q) = terminated (procs w q))"
proof (induction n arbitrary: w p "by" w')
  case 0
  then show ?case by simp
next
  case (Suc n)
  show ?case
  proof (cases "kind (procs w p)")
    case PlainProcessor
    with Suc.prems show ?thesis by (auto simp: processor_interrupt_frame)
  next
    case SectorProcessor
    show ?thesis
    proof (cases "interrupted (procs w p)")
      case True
      with Suc.prems SectorProcessor show ?thesis by simp
    next
      case False
      with Suc.prems SectorProcessor
      have "fold (\<lambda>x acc. case acc of None \<Rightarrow> None | Some w' \<Rightarrow> interrupt n w' x None)
          (processors (procs w p)) (Some (processor_interrupt w p by)) = Some w'" by simp
      from interrupt_members_frame[OF _ this] Suc.IH
      show ?thesis by (simp add: processor_interrupt_frame)
    qed
  qed
qed

lemmas sector_defs = sectors_example_def atexit_def exit_event_connect_def dispatch_def
  proc_update_def new_processor_def set_add_def faulted_def processor_interrupt_def exited_def
  run_task_def reap_def reaped_def exit_event_emit_def Let_def

lemma three: "(3::nat) = Suc (Suc (Suc 0))"
  by simp

lemma atexit_fires_after_termination:
  "\<exists>w w1. empty_sector_example = Inr w \<and> empty_sector_terminate w 2 None = Inr w1 \<and>
     invoked (run_task (run_task w1)) = [(9, 2)] \<and>
     terminated (procs (run_task (run_task w1)) 2) \<and>
     \<not> interrupted (procs (run_task (run_task w1)) 2)"
  by (simp add: sector_defs empty_sector_example_def empty_sector_terminate_def
      processor_terminate_def functioning_def)

text \<open>
  C5. An interrupt alone leaves the at-exit callbacks uncalled and the processors not
  terminated. But \<open>Unit.faulted\<close> interrupts the faulted sector and then signals its exit
  to the controller, and \<open>Sector.reap\<close> emits the exit events of every processor in
  \<open>exits\<close> without looking at \<open>interrupted\<close>: after a fault of processor 3, the callback
  registered with \<open>atexit\<close> on sector 2 is invoked although sector 2 was interrupted and
  never terminated.
\<close>

theorem atexit_fires_after_fault_interrupt:
  "\<exists>w w1 w2. sectors_example = Inr w \<and> faulted 3 w 3 = Some (Inr w1) \<and>
     invoked (run_task (run_task w1)) = [(9, 2)] \<and>
     interrupted (procs (run_task (run_task w1)) 2) \<and>
     \<not> terminated (procs (run_task (run_task w1)) 2) \<and>
     p_terminating (procs (run_task (run_task w1)) 2) = None \<and>
     interrupt 3 w 2 None = Some w2 \<and> tasks w2 = [] \<and> invoked w2 = [] \<and>
     interrupted (procs w2 2) \<and> interrupted (procs w2 3) \<and>
     \<not> terminated (procs w2 2) \<and> \<not> terminated (procs w2 3)"
  unfolding three by (simp add: sector_defs)

end
